theory Spec2Isabelle
  imports Main "HOL-Library.AList" "HOL-Library.Sublist"
begin

section \<open>Python values of the warranty payload\<close>

text \<open>
  The payload handed to \<open>Dell.process_result\<close> is whatever \<open>resp.json()\<close> produced: nested
  dictionaries, lists, strings, integers, booleans and \<open>None\<close>. The code indexes it
  dynamically, so the model keeps it dynamic: a field that is missing or has the wrong shape
  is a Python exception, written as the left summand of a result.

  A dictionary is an association list read with \<open>map_of\<close> (the first binding of a key is the
  dictionary's value for it). Strings are character lists; one list element stands for one
  Python character. JSON real numbers are left out of the value type.
\<close>

datatype json =
    JNull
  | JBool bool
  | JInt int
  | JStr string
  | JList "json list"
  | JDict "(string \<times> json) list"

datatype py_error = KeyError | TypeError | AttributeError | IndexError | ValueError

type_synonym pydict = "(string \<times> json) list"

text \<open>Sequencing: the first exception raised ends the computation.\<close>

definition py_bind :: "py_error + 'a \<Rightarrow> ('a \<Rightarrow> py_error + 'b) \<Rightarrow> py_error + 'b" where
  "py_bind m f = (case m of Inl e \<Rightarrow> Inl e | Inr x \<Rightarrow> f x)"

text \<open>\<open>v[k]\<close> with a string key: only a dictionary can answer; a missing key is \<open>KeyError\<close>,
  every other receiver rejects a string subscript with \<open>TypeError\<close>.\<close>

fun getitem :: "json \<Rightarrow> string \<Rightarrow> py_error + json" where
  "getitem (JDict d) k = (case map_of d k of None \<Rightarrow> Inl KeyError | Some v \<Rightarrow> Inr v)"
| "getitem v k = Inl TypeError"

text \<open>\<open>for x in v\<close>: a list yields its elements, a string its characters, a dictionary its
  keys (in the order of the association list, each once); \<open>None\<close>, numbers and booleans are
  not iterable.\<close>

fun py_iter :: "json \<Rightarrow> py_error + json list" where
  "py_iter (JList xs) = Inr xs"
| "py_iter (JStr s) = Inr (map (\<lambda>c. JStr [c]) s)"
| "py_iter (JDict d) = Inr (map JStr (remdups (map fst d)))"
| "py_iter v = Inl TypeError"

text \<open>\<open>s.split(sep)\<close> for a one-character separator; the result is never empty.\<close>

fun str_split :: "char \<Rightarrow> string \<Rightarrow> string list" where
  "str_split sep [] = [[]]"
| "str_split sep (c # cs) =
     (if c = sep then [] # str_split sep cs
      else (case str_split sep cs of [] \<Rightarrow> [[c]] | w # ws \<Rightarrow> (c # w) # ws))"

text \<open>\<open>v.split('T')[0]\<close>: only strings have \<open>split\<close>.\<close>

definition split_T_0 :: "json \<Rightarrow> py_error + string" where
  "split_T_0 v =
     (case v of
        JStr s \<Rightarrow> (case str_split (CHR ''T'') s of [] \<Rightarrow> Inl IndexError | w # ws \<Rightarrow> Inr w)
      | _ \<Rightarrow> Inl AttributeError)"

text \<open>\<open>v == k\<close> for an integer literal \<open>k\<close>: booleans compare as 0 and 1, every other
  non-number is simply unequal (Python 2 never raises here).\<close>

fun eq_int :: "json \<Rightarrow> int \<Rightarrow> bool" where
  "eq_int (JInt n) k = (n = k)"
| "eq_int (JBool b) k = ((if b then 1 else 0) = k)"
| "eq_int v k = False"

text \<open>Substring test of \<open>needle in s\<close> on strings.\<close>

fun str_contains :: "string \<Rightarrow> string \<Rightarrow> bool" where
  "str_contains needle [] = (needle = [])"
| "str_contains needle (c # cs) = (prefix needle (c # cs) \<or> str_contains needle cs)"

text \<open>\<open>needle in v\<close> for a string literal \<open>needle\<close>: substring test on a string, membership
  on a list, key test on a dictionary, \<open>TypeError\<close> otherwise.\<close>

fun py_in :: "string \<Rightarrow> json \<Rightarrow> py_error + bool" where
  "py_in needle (JStr s) = Inr (str_contains needle s)"
| "py_in needle (JList xs) = Inr (JStr needle \<in> set xs)"
| "py_in needle (JDict d) = Inr (needle \<in> set (map fst d))"
| "py_in needle v = Inl TypeError"

text \<open>\<open>a and b\<close> where only \<open>b\<close> can raise: \<open>b\<close> is evaluated only when \<open>a\<close> holds.\<close>

definition py_and :: "bool \<Rightarrow> py_error + bool \<Rightarrow> py_error + bool" where
  "py_and a b = (if a then b else Inr False)"

text \<open>\<open>left(s, amount)\<close>, that is \<open>s[:amount]\<close>: strings and lists can be sliced.\<close>

fun left :: "json \<Rightarrow> nat \<Rightarrow> py_error + json" where
  "left (JStr s) amount = Inr (JStr (take amount s))"
| "left (JList xs) amount = Inr (JList (take amount xs))"
| "left v amount = Inl TypeError"

text \<open>\<open>a + b\<close>: concatenation of two strings or two lists, addition of numbers (booleans
  counting as 0 and 1), \<open>TypeError\<close> for every other pair.\<close>

fun as_int :: "json \<Rightarrow> int option" where
  "as_int (JInt n) = Some n"
| "as_int (JBool b) = Some (if b then 1 else 0)"
| "as_int v = None"

fun py_add :: "json \<Rightarrow> json \<Rightarrow> py_error + json" where
  "py_add (JStr a) (JStr b) = Inr (JStr (a @ b))"
| "py_add (JList a) (JList b) = Inr (JList (a @ b))"
| "py_add a b =
     (case (as_int a, as_int b) of
        (Some x, Some y) \<Rightarrow> Inr (JInt (x + y))
      | _ \<Rightarrow> Inl TypeError)"

section \<open>Classification of an entitlement line\<close>

text \<open>Lines 120 to 128 of \<open>Dell.process_result\<close>: the \<open>if\<close>/\<open>elif\<close> chain, in its order.\<close>

definition contract_type :: "json \<Rightarrow> json \<Rightarrow> py_error + string" where
  "contract_type service_level_group product_id =
     (if eq_int service_level_group (- 1) \<or> eq_int service_level_group 5
         \<or> eq_int service_level_group 8
      then Inr ''Warranty''
      else case py_and (eq_int service_level_group 8) (py_in ''compellent'' product_id) of
             Inl e \<Rightarrow> Inl e
           | Inr True \<Rightarrow> Inr ''Service''
           | Inr False \<Rightarrow>
               (case py_and (eq_int service_level_group 11) (py_in ''compellent'' product_id) of
                  Inl e \<Rightarrow> Inl e
                | Inr True \<Rightarrow> Inr ''Warranty''
                | Inr False \<Rightarrow> Inr ''Service''))"

section \<open>The fetcher object and its surroundings\<close>

text \<open>
  What the processor prints is kept as a list of events, oldest first: the duplicate
  diagnostic of line 155 with the three values it formats, the bad-asset diagnostic of
  line 71 with the value whose \<open>str\<close> is printed, and the exception printed at line 73.
\<close>

datatype diag =
    DuplicateFound json json string
  | BadAsset json
  | PrintedError py_error

text \<open>The caller's \<open>purchases\<close> dictionary: composite key to (start date, end date).\<close>

type_synonym seen = "string \<rightharpoonup> string \<times> string"

text \<open>
  The attributes set by \<open>Dell.__init__\<close>. The upload sink \<open>d42_rest.upload_data\<close> is not
  part of this file; it is a parameter, given by what one call with a record does to the
  caller's \<open>purchases\<close> dictionary (the identity for a sink that does not touch it).
\<close>

record dell =
  url :: string
  api_key :: string
  debug :: bool
  retry :: bool
  order_no :: string
  common :: "string option"
  d42_rest :: "pydict \<Rightarrow> seen \<Rightarrow> seen"

text \<open>
  Everything \<open>process_result\<close> can change or consume: the records handed to
  \<open>upload_data\<close> in call order, the printed diagnostics, the \<open>purchases\<close> dictionary (it
  is the caller's object, which the sink may also reach), and the random source of the
  \<open>random\<close> module, an infinite sequence of numbers of which \<open>drawn\<close> have been used.
\<close>

record world =
  uploads :: "pydict list"
  printed :: "diag list"
  purchases :: seen
  entropy :: "nat \<Rightarrow> nat"
  drawn :: nat

text \<open>\<open>random.randint(0, 9)\<close>: the next number of the source, brought into 0..9.\<close>

definition randint_0_9 :: "world \<Rightarrow> nat \<times> world" where
  "randint_0_9 w = (entropy w (drawn w) mod 10, w\<lparr>drawn := Suc (drawn w)\<rparr>)"

text \<open>\<open>str(d)\<close> for a number \<open>d\<close> in 0..9.\<close>

definition str_digit :: "nat \<Rightarrow> string" where
  "str_digit d = [''0123456789'' ! d]"

text \<open>The loop of \<open>generate_random_order_no\<close>, \<open>n\<close> rounds left, and the function itself.\<close>

fun order_no_loop :: "nat \<Rightarrow> string \<Rightarrow> world \<Rightarrow> string \<times> world" where
  "order_no_loop 0 acc w = (acc, w)"
| "order_no_loop (Suc n) acc w =
     (case randint_0_9 w of (d, w') \<Rightarrow> order_no_loop n (acc @ str_digit d) w')"

definition generate_random_order_no :: "world \<Rightarrow> string \<times> world" where
  "generate_random_order_no w = order_no_loop 9 [] w"

text \<open>\<open>Dell.__init__\<close>: \<open>params\<close> and the three constants imported from \<open>shared\<close>.\<close>

record params =
  params_url :: string
  params_api_key :: string
  params_d42_rest :: "pydict \<Rightarrow> seen \<Rightarrow> seen"

record shared =
  DEBUG :: bool
  RETRY :: bool
  ORDER_NO_TYPE :: string

definition Dell_init :: "params \<Rightarrow> shared \<Rightarrow> world \<Rightarrow> dell \<times> world" where
  "Dell_init ps cfg w =
     (let self = \<lparr>url = params_url ps, api_key = params_api_key ps, debug = DEBUG cfg,
                  retry = RETRY cfg, order_no = ORDER_NO_TYPE cfg, common = None,
                  d42_rest = params_d42_rest ps\<rparr>
      in if order_no self = ''common''
         then (case generate_random_order_no w of (s, w') \<Rightarrow> (self\<lparr>common := Some s\<rparr>, w'))
         else (self, w))"

section \<open>The response processor\<close>

text \<open>Lines 63 to 65: the three sections of one asset entry.\<close>

definition sections :: "json \<Rightarrow> py_error + json \<times> json \<times> json" where
  "sections item =
     py_bind (getitem item ''AssetEntitlementData'') (\<lambda>warranties.
     py_bind (getitem item ''AssetHeaderData'') (\<lambda>asset.
     py_bind (getitem item ''ProductHeaderData'') (\<lambda>product.
     Inr (warranties, asset, product))))"

text \<open>Lines 67 to 73, the body of the \<open>except IndexError\<close> handler when \<open>debug\<close> is set.
  \<open>str\<close> of a value is empty only for the empty string.\<close>

definition bad_asset_diag :: "json \<Rightarrow> world \<Rightarrow> world" where
  "bad_asset_diag result w =
     (case getitem result ''InvalidFormatAssets'' of
        Inl e \<Rightarrow> w\<lparr>printed := printed w @ [PrintedError e]\<rparr>
      | Inr invalid \<Rightarrow>
          (case getitem invalid ''BadAssets'' of
             Inl e \<Rightarrow> w\<lparr>printed := printed w @ [PrintedError e]\<rparr>
           | Inr msg \<Rightarrow>
               if msg \<noteq> JStr [] then w\<lparr>printed := printed w @ [BadAsset msg]\<rparr> else w))"

text \<open>Lines 76 to 81: the order number of one asset.\<close>

definition resolve_order_no :: "dell \<Rightarrow> json \<Rightarrow> world \<Rightarrow> (py_error + json) \<times> world" where
  "resolve_order_no self asset w =
     (if order_no self = ''vendor'' then (getitem asset ''OrderNumber'', w)
      else if order_no self = ''common''
      then (Inr (case common self of None \<Rightarrow> JNull | Some s \<Rightarrow> JStr s), w)
      else (case generate_random_order_no w of (s, w') \<Rightarrow> (Inr (JStr s), w')))"

text \<open>Lines 101 to 110: the fields that do not depend on the line. \<open>data\<close> was cleared at
  line 97, so every line starts from the empty dictionary.\<close>

definition line_header :: "json \<Rightarrow> json \<Rightarrow> string \<Rightarrow> pydict" where
  "line_header order_no' serial ship_date =
     (let data = AList.update ''order_no'' order_no' [];
          data = (if ship_date \<noteq> [] then AList.update ''po_date'' (JStr ship_date) data
                  else data);
          data = AList.update ''completed'' (JStr ''yes'') data;
          data = AList.update ''vendor'' (JStr ''Dell Inc.'') data;
          data = AList.update ''line_device_serial_nos'' serial data;
          data = AList.update ''line_type'' (JStr ''contract'') data;
          data = AList.update ''line_item_type'' (JStr ''device'') data
      in AList.update ''line_completed'' (JStr ''yes'') data)"

text \<open>Lines 134 to 140: the service type, with the bare \<open>except\<close> that swallows every
  failure of the lookup and of the slice.\<close>

definition set_service_type :: "json \<Rightarrow> pydict \<Rightarrow> pydict" where
  "set_service_type sub_item data =
     (case getitem sub_item ''ServiceLevelDescription'' of
        Inl e \<Rightarrow> data
      | Inr description \<Rightarrow>
          (case left description 32 of
             Inl e \<Rightarrow> data
           | Inr service_level_description \<Rightarrow>
               AList.update ''line_service_type'' service_level_description data))"

text \<open>Line 159: the call of the sink, recorded with the record as it is at the call, and
  the sink's effect on \<open>purchases\<close>.\<close>

definition upload_data :: "dell \<Rightarrow> pydict \<Rightarrow> world \<Rightarrow> world" where
  "upload_data self data w =
     w\<lparr>uploads := uploads w @ [data], purchases := d42_rest self data (purchases w)\<rparr>"

text \<open>Lines 149 to 160: the composite key and the duplicate check. Only a string can come
  out of the two additions, since \<open>end_date\<close> is one; the last case is never reached.\<close>

definition hasher :: "json \<Rightarrow> json \<Rightarrow> string \<Rightarrow> py_error + json" where
  "hasher serial line_contract_id end_date =
     py_bind (py_add serial line_contract_id) (\<lambda>sc. py_add sc (JStr end_date))"

definition check_and_upload ::
  "dell \<Rightarrow> json \<Rightarrow> json \<Rightarrow> string \<Rightarrow> string \<Rightarrow> pydict \<Rightarrow> world \<Rightarrow> py_error + world" where
  "check_and_upload self serial line_contract_id start_date end_date data w =
     (case hasher serial line_contract_id end_date of
        Inl e \<Rightarrow> Inl e
      | Inr (JStr key) \<Rightarrow>
          (case purchases w key of
             Some (d_start, d_end) \<Rightarrow>
               Inr (if d_start = start_date \<and> d_end = end_date
                    then w\<lparr>printed := printed w
                             @ [DuplicateFound serial line_contract_id end_date]\<rparr>
                    else w)
           | None \<Rightarrow> Inr (upload_data self data w))
      | Inr other \<Rightarrow> Inl TypeError)"

text \<open>The record as it stands after line 146, for a line that was not skipped: the updates
  of lines 101 to 146 in their order.\<close>

definition line_data ::
  "json \<Rightarrow> json \<Rightarrow> string \<Rightarrow> json \<Rightarrow> string \<Rightarrow> json \<Rightarrow> string \<Rightarrow> string \<Rightarrow> pydict" where
  "line_data order_no' serial ship_date line_contract_id contract_type' sub_item
       start_date end_date =
     (let data = line_header order_no' serial ship_date;
          data = AList.update ''line_notes'' line_contract_id data;
          data = AList.update ''line_contract_id'' line_contract_id data;
          data = AList.update ''line_contract_type'' (JStr contract_type') data;
          data = set_service_type sub_item data;
          data = AList.update ''line_start_date'' (JStr start_date) data
      in AList.update ''line_end_date'' (JStr end_date) data)"

text \<open>Lines 97 to 160: the body of the loop over the entitlement lines of one asset. The
  reads of the payload are in the order of the source, so the first one that fails is the
  exception raised. The record is local and cleared at line 97, so an exception or the
  \<open>continue\<close> of line 132 leaves nothing of it behind, and the world is as it was.\<close>

definition process_line ::
  "dell \<Rightarrow> json \<Rightarrow> json \<Rightarrow> json \<Rightarrow> json \<Rightarrow> json \<Rightarrow> world \<Rightarrow> py_error + world" where
  "process_line self order_no' serial asset product sub_item w =
     py_bind (getitem asset ''ShipDate'') (\<lambda>ship.
     py_bind (split_T_0 ship) (\<lambda>ship_date.
     py_bind (getitem product ''ProductId'') (\<lambda>product_id.
     py_bind (getitem sub_item ''ItemNumber'') (\<lambda>line_contract_id.
     py_bind (getitem sub_item ''ServiceLevelGroup'') (\<lambda>service_level_group.
     py_bind (contract_type service_level_group product_id) (\<lambda>contract_type'.
     if contract_type' = ''Service'' then Inr w
     else
     py_bind (getitem sub_item ''StartDate'') (\<lambda>start.
     py_bind (split_T_0 start) (\<lambda>start_date.
     py_bind (getitem sub_item ''EndDate'') (\<lambda>end'.
     py_bind (split_T_0 end') (\<lambda>end_date.
     check_and_upload self serial line_contract_id start_date end_date
       (line_data order_no' serial ship_date line_contract_id contract_type' sub_item
          start_date end_date) w))))))))))"

fun process_lines ::
  "dell \<Rightarrow> json \<Rightarrow> json \<Rightarrow> json \<Rightarrow> json \<Rightarrow> json list \<Rightarrow> world
     \<Rightarrow> py_error option \<times> world" where
  "process_lines self order_no' serial asset product [] w = (None, w)"
| "process_lines self order_no' serial asset product (sub_item # rest) w =
     (case process_line self order_no' serial asset product sub_item w of
        Inl e \<Rightarrow> (Some e, w)
      | Inr w' \<Rightarrow> process_lines self order_no' serial asset product rest w')"

text \<open>Lines 62 to 160: the body of the loop over the asset entries.\<close>

definition process_item :: "dell \<Rightarrow> json \<Rightarrow> json \<Rightarrow> world \<Rightarrow> py_error option \<times> world" where
  "process_item self result item w =
     (case sections item of
        Inl e \<Rightarrow>
          if e = IndexError then (None, if debug self then bad_asset_diag result w else w)
          else (Some e, w)
      | Inr (warranties, asset, product) \<Rightarrow>
          (case resolve_order_no self asset w of
             (Inl e, w1) \<Rightarrow> (Some e, w1)
           | (Inr order_no', w1) \<Rightarrow>
               (case getitem asset ''ServiceTag'' of
                  Inl e \<Rightarrow> (Some e, w1)
                | Inr serial \<Rightarrow>
                    (case py_iter warranties of
                       Inl e \<Rightarrow> (Some e, w1)
                     | Inr sub_items \<Rightarrow>
                         process_lines self order_no' serial asset product sub_items w1))))"

fun process_items :: "dell \<Rightarrow> json \<Rightarrow> json list \<Rightarrow> world \<Rightarrow> py_error option \<times> world" where
  "process_items self result [] w = (None, w)"
| "process_items self result (item # rest) w =
     (case process_item self result item w of
        (Some e, w') \<Rightarrow> (Some e, w')
      | (None, w') \<Rightarrow> process_items self result rest w')"

text \<open>\<open>Dell.process_result(result, purchases)\<close>, with \<open>purchases\<close> in the world. The first
  component is the exception that ended the call, \<open>None\<close> when it returned.\<close>

definition process_result :: "dell \<Rightarrow> json \<Rightarrow> world \<Rightarrow> py_error option \<times> world" where
  "process_result self result w =
     (case py_in ''AssetWarrantyResponse'' result of
        Inl e \<Rightarrow> (Some e, w)
      | Inr False \<Rightarrow> (None, w)
      | Inr True \<Rightarrow>
          (case getitem result ''AssetWarrantyResponse'' of
             Inl e \<Rightarrow> (Some e, w)
           | Inr response \<Rightarrow>
               (case py_iter response of
                  Inl e \<Rightarrow> (Some e, w)
                | Inr items \<Rightarrow> process_items self result items w)))"

section \<open>The warranty fetcher\<close>

text \<open>
  The vendor API is outside the program. Its answer to the \<open>i\<close>-th request of a run is
  either a response, with its status code and what \<open>resp.json()\<close> makes of the body (a
  value or the parse error), or a transport fault raised as \<open>requests.RequestException\<close>.
\<close>

datatype http_outcome = Response int "py_error + json" | RequestException

text \<open>The arguments of \<open>requests.get\<close> at line 38.\<close>

record request =
  req_url :: string
  req_params :: "(string \<times> string) list"
  req_verify :: bool
  req_timeout :: nat

text \<open>What the fetcher prints (lines 33, 29, 41, 42 and 46).\<close>

datatype message =
    Checking string
  | ErrorMsg string
  | StatusError int
  | Waiting
  | Retry

text \<open>The network as the fetcher sees it: the server, the requests sent so far, the seconds
  spent in \<open>time.sleep\<close>, and the console.\<close>

record net =
  server :: "nat \<Rightarrow> request \<Rightarrow> http_outcome"
  sent :: "request list"
  slept :: nat
  console :: "message list"

text \<open>
  \<open>Dell.run_warranty_check\<close>, lines 31 to 55. The result is the value returned (\<open>JNull\<close>
  is Python's \<open>None\<close>) or the exception that escapes. Line 47 calls the method again and
  does nothing with what it returns; the method then falls off its end, which returns
  \<open>None\<close>. A parse error of the retried body is not a \<open>RequestException\<close> and escapes.
\<close>

function run_warranty_check ::
  "dell \<Rightarrow> string \<Rightarrow> bool \<Rightarrow> net \<Rightarrow> (py_error + json) \<times> net" where
  "run_warranty_check self inline_serials retry' n =
     (let n1 = (if debug self then n\<lparr>console := console n @ [Checking inline_serials]\<rparr> else n);
          payload = \<lparr>req_url = url self,
                     req_params = [(''id'', inline_serials), (''apikey'', api_key self),
                                   (''accept'', ''Application/json'')],
                     req_verify = True, req_timeout = 10\<rparr>;
          n2 = n1\<lparr>sent := sent n1 @ [payload]\<rparr>
      in case server n (length (sent n)) payload of
           RequestException \<Rightarrow>
             (Inr JNull, n2\<lparr>console := console n2 @ [ErrorMsg ''RequestException'']\<rparr>)
         | Response status_code body \<Rightarrow>
             if status_code = 401
             then (let n3 = n2\<lparr>console := console n2 @ [StatusError status_code, Waiting],
                               slept := slept n2 + 30\<rparr>
                   in if retry'
                      then (case run_warranty_check self inline_serials False
                                   (n3\<lparr>console := console n3 @ [Retry]\<rparr>) of
                              (Inl e, n4) \<Rightarrow> (Inl e, n4)
                            | (Inr discarded, n4) \<Rightarrow> (Inr JNull, n4))
                      else (Inr JNull, n3))
             else (case body of
                     Inl e \<Rightarrow> (Inl e, n2)
                   | Inr result \<Rightarrow> (Inr result, n2)))"
  by pat_completeness auto
termination
  by (relation "measure (\<lambda>(self, inline_serials, retry', n). if retry' then 1 else 0)") auto

section \<open>Notions used to state the properties\<close>

text \<open>The date portion of a timestamp: the characters before the first \<open>T\<close>.\<close>

definition date_portion :: "string \<Rightarrow> string" where
  "date_portion s = takeWhile (\<lambda>c. c \<noteq> CHR ''T'') s"

text \<open>The contract type of an entitlement line of a product, as lines 99 and 120 to 128
  compute it from the product id and the service-level group.\<close>

definition line_class :: "json \<Rightarrow> json \<Rightarrow> py_error + string" where
  "line_class product sub_item =
     py_bind (getitem product ''ProductId'') (\<lambda>product_id.
     py_bind (getitem sub_item ''ServiceLevelGroup'') (\<lambda>service_level_group.
     contract_type service_level_group product_id))"

text \<open>The entitlement lines of an asset entry, each with the asset header and the product
  header it is processed with, in the order of the loop of line 96.\<close>

definition lines_of_item :: "json \<Rightarrow> (json \<times> json \<times> json) list" where
  "lines_of_item item =
     (case sections item of
        Inl e \<Rightarrow> []
      | Inr (warranties, asset, product) \<Rightarrow>
          (case py_iter warranties of
             Inl e \<Rightarrow> []
           | Inr sub_items \<Rightarrow> map (\<lambda>sub_item. (asset, product, sub_item)) sub_items))"

text \<open>All entitlement lines of a payload, in the order of the two loops.\<close>

definition entitlement_lines :: "json \<Rightarrow> (json \<times> json \<times> json) list" where
  "entitlement_lines result =
     (case getitem result ''AssetWarrantyResponse'' of
        Inl e \<Rightarrow> []
      | Inr response \<Rightarrow>
          (case py_iter response of
             Inl e \<Rightarrow> []
           | Inr items \<Rightarrow> concat (map lines_of_item items)))"

text \<open>An upload record belongs to a line: the line is classified "Warranty", the record
  says so, and the record carries the contract id of the line and the serial of its asset.\<close>

definition uploaded_for :: "pydict \<Rightarrow> json \<times> json \<times> json \<Rightarrow> bool" where
  "uploaded_for u l =
     (case l of (asset, product, sub_item) \<Rightarrow>
        line_class product sub_item = Inr ''Warranty''
        \<and> getitem (JDict u) ''line_contract_type'' = Inr (JStr ''Warranty'')
        \<and> getitem (JDict u) ''line_contract_id'' = getitem sub_item ''ItemNumber''
        \<and> getitem (JDict u) ''line_device_serial_nos'' = getitem asset ''ServiceTag'')"

text \<open>The order number the three strategies prescribe for the asset entry at position \<open>i\<close>
  of a call that starts in the world \<open>w\<close>: the number of its own header; the value held by
  the object; or nine decimal digits, made of the draws \<open>9 * i\<close> to \<open>9 * i + 8\<close> that the
  random source delivers after those already used, so that every entry has draws of its
  own.\<close>

definition expected_order_no :: "dell \<Rightarrow> world \<Rightarrow> nat \<Rightarrow> json \<Rightarrow> py_error + json" where
  "expected_order_no self w i asset =
     (if order_no self = ''vendor'' then getitem asset ''OrderNumber''
      else if order_no self = ''common''
      then Inr (case common self of None \<Rightarrow> JNull | Some s \<Rightarrow> JStr s)
      else Inr (JStr (map (\<lambda>k. ''0123456789'' ! (entropy w (drawn w + 9 * i + k) mod 10))
                        [0..<9])))"

text \<open>The date portion of the field \<open>k\<close> of a dictionary, as a value of a record.\<close>

definition date_of :: "json \<Rightarrow> string \<Rightarrow> py_error + json" where
  "date_of d k =
     (case getitem d k of Inr (JStr s) \<Rightarrow> Inr (JStr (date_portion s)) | _ \<Rightarrow> Inl KeyError)"

text \<open>The service type of a line: its description cut to 32 characters when it is a
  string, cut to 32 elements when it is a list, and no field otherwise.\<close>

definition service_type_of :: "json \<Rightarrow> py_error + json" where
  "service_type_of sub_item =
     (case getitem sub_item ''ServiceLevelDescription'' of
        Inr (JStr d) \<Rightarrow> Inr (JStr (take 32 d))
      | Inr (JList xs) \<Rightarrow> Inr (JList (take 32 xs))
      | _ \<Rightarrow> Inl KeyError)"

text \<open>The upload record prescribed for a warranty line of an asset, field by field, given the
  order number; a key that the record does not have is a \<open>KeyError\<close>. Only the field
  \<open>line_service_type\<close> looks at the description.\<close>

definition expected_field :: "(py_error + json) \<Rightarrow> json \<Rightarrow> json \<Rightarrow> string \<Rightarrow> py_error + json" where
  "expected_field order asset sub_item k =
     (if k = ''line_end_date'' then date_of sub_item ''EndDate''
      else if k = ''line_start_date'' then date_of sub_item ''StartDate''
      else if k = ''line_service_type'' then service_type_of sub_item
      else if k = ''line_contract_type'' then Inr (JStr ''Warranty'')
      else if k = ''line_contract_id'' then getitem sub_item ''ItemNumber''
      else if k = ''line_notes'' then getitem sub_item ''ItemNumber''
      else if k = ''po_date''
      then (if date_of asset ''ShipDate'' = Inr (JStr []) then Inl KeyError
            else date_of asset ''ShipDate'')
      else if k = ''line_completed'' then Inr (JStr ''yes'')
      else if k = ''line_item_type'' then Inr (JStr ''device'')
      else if k = ''line_type'' then Inr (JStr ''contract'')
      else if k = ''line_device_serial_nos'' then getitem asset ''ServiceTag''
      else if k = ''vendor'' then Inr (JStr ''Dell Inc.'')
      else if k = ''completed'' then Inr (JStr ''yes'')
      else if k = ''order_no'' then order
      else Inl KeyError)"

text \<open>The entitlement lines of a payload in the order of the two loops, each with the
  position of its asset entry.\<close>

fun indexed_lines_from :: "nat \<Rightarrow> json list \<Rightarrow> (nat \<times> json \<times> json \<times> json) list" where
  "indexed_lines_from n [] = []"
| "indexed_lines_from n (item # rest) =
     map (\<lambda>l. (n, l)) (lines_of_item item) @ indexed_lines_from (Suc n) rest"

definition indexed_lines :: "json \<Rightarrow> (nat \<times> json \<times> json \<times> json) list" where
  "indexed_lines result =
     (case getitem result ''AssetWarrantyResponse'' of
        Inl e \<Rightarrow> []
      | Inr response \<Rightarrow>
          (case py_iter response of
             Inl e \<Rightarrow> []
           | Inr items \<Rightarrow> indexed_lines_from 0 items))"

text \<open>A record is the one prescribed for a line: the line is classified "Warranty" and
  every field of the record is the prescribed one, with the order number of the line's
  asset entry.\<close>

definition record_for :: "dell \<Rightarrow> world \<Rightarrow> pydict \<Rightarrow> nat \<times> json \<times> json \<times> json \<Rightarrow> bool" where
  "record_for self w u l =
     (case l of (i, asset, product, sub_item) \<Rightarrow>
        line_class product sub_item = Inr ''Warranty''
        \<and> (\<forall>k. getitem (JDict u) k
               = expected_field (expected_order_no self w i asset) asset sub_item k))"

section \<open>Concrete inputs\<close>

text \<open>A fetcher, a world, one asset with a warranty line and a service line, a payload whose
  first entry lacks its entitlement section, and a server that answers 401 once.\<close>

definition example_self :: dell where
  "example_self = \<lparr>url = ''https://api.example/warranty'', api_key = ''key'', debug = True,
     retry = True, order_no = ''vendor'', common = None, d42_rest = (\<lambda>data seen. seen)\<rparr>"

definition example_world :: world where
  "example_world = \<lparr>uploads = [], printed = [], purchases = Map.empty,
     entropy = (\<lambda>i. i), drawn = 0\<rparr>"

definition example_asset :: json where
  "example_asset = JDict [(''ServiceTag'', JStr ''ABC123''), (''OrderNumber'', JStr ''777''),
     (''ShipDate'', JStr ''2020-01-02T00:00:00'')]"

definition example_product :: json where
  "example_product = JDict [(''ProductId'', JStr ''poweredge-r740'')]"

definition warranty_line :: json where
  "warranty_line = JDict [(''ItemNumber'', JStr ''I-1''), (''ServiceLevelGroup'', JInt 5),
     (''ServiceLevelDescription'', JStr ''Next Business Day Onsite Service After Remote Diagnosis''),
     (''StartDate'', JStr ''2020-01-02T00:00:00''), (''EndDate'', JStr ''2023-01-02T23:59:59'')]"

definition service_line :: json where
  "service_line = JDict [(''ItemNumber'', JStr ''I-2''), (''ServiceLevelGroup'', JInt 3),
     (''StartDate'', JStr ''2020-01-02T00:00:00''), (''EndDate'', JStr ''2023-01-02T23:59:59'')]"

definition example_item :: json where
  "example_item = JDict [(''AssetEntitlementData'', JList [warranty_line, service_line]),
     (''AssetHeaderData'', example_asset), (''ProductHeaderData'', example_product)]"

definition example_payload :: json where
  "example_payload = JDict [(''AssetWarrantyResponse'', JList [example_item])]"

definition malformed_payload :: json where
  "malformed_payload = JDict
     [(''AssetWarrantyResponse'',
         JList [JDict [(''AssetHeaderData'', example_asset),
                       (''ProductHeaderData'', example_product)],
                example_item]),
      (''InvalidFormatAssets'', JDict [(''BadAssets'', JStr ''XYZ'')])]"

definition throttled_once :: "nat \<Rightarrow> request \<Rightarrow> http_outcome" where
  "throttled_once i req =
     (if i = 0 then Response 401 (Inl ValueError)
      else Response 200 (Inr (JDict [(''AssetWarrantyResponse'', JList [])])))"

definition quiet_net :: "(nat \<Rightarrow> request \<Rightarrow> http_outcome) \<Rightarrow> net" where
  "quiet_net srv = \<lparr>server = srv, sent = [], slept = 0, console = []\<rparr>"


definition stale_world :: world where
  "stale_world = example_world\<lparr>purchases :=
     [''ABC123I-12023-01-02'' \<mapsto> (''2019-06-30'', ''2023-01-02'')]\<rparr>"

definition undescribed_line :: json where
  "undescribed_line = JDict [(''ItemNumber'', JStr ''I-1''), (''ServiceLevelGroup'', JInt 5),
     (''ServiceLevelDescription'', JNull),
     (''StartDate'', JStr ''2020-01-02T00:00:00''), (''EndDate'', JStr ''2023-01-02T23:59:59'')]"

definition common_shared :: shared where
  "common_shared = \<lparr>DEBUG = False, RETRY = True, ORDER_NO_TYPE = ''common''\<rparr>"

definition example_params :: params where
  "example_params = \<lparr>params_url = ''https://api.example/warranty'', params_api_key = ''key'',
     params_d42_rest = (\<lambda>data seen. seen)\<rparr>"

definition random_self :: dell where
  "random_self = example_self\<lparr>order_no := ''random''\<rparr>"

text \<open>A second asset with an empty ship date, whose entry has a line with a \<open>null\<close>
  description and a line whose description is a list; the payload of both entries; the
  object that \<open>__init__\<close> builds under the strategy \<open>common\<close>; and the three records that
  payload gives rise to, for an order number.\<close>

definition second_asset :: json where
  "second_asset = JDict [(''ServiceTag'', JStr ''XYZ789''), (''OrderNumber'', JStr ''888''),
     (''ShipDate'', JStr [])]"

definition list_line :: json where
  "list_line = JDict [(''ItemNumber'', JStr ''I-3''), (''ServiceLevelGroup'', JInt 8),
     (''ServiceLevelDescription'', JList [JInt 1, JInt 2]),
     (''StartDate'', JStr ''2021-05-06T00:00:00''), (''EndDate'', JStr ''2024-05-06T23:59:59'')]"

definition second_item :: json where
  "second_item = JDict [(''AssetEntitlementData'', JList [undescribed_line, list_line]),
     (''AssetHeaderData'', second_asset), (''ProductHeaderData'', example_product)]"

definition two_asset_payload :: json where
  "two_asset_payload = JDict [(''AssetWarrantyResponse'', JList [example_item, second_item])]"

definition common_self :: dell where
  "common_self = fst (Dell_init example_params common_shared example_world)"

definition first_record :: "json \<Rightarrow> pydict" where
  "first_record ono = line_data ono (JStr ''ABC123'') ''2020-01-02'' (JStr ''I-1'') ''Warranty''
     warranty_line ''2020-01-02'' ''2023-01-02''"

definition second_record :: "json \<Rightarrow> pydict" where
  "second_record ono = line_data ono (JStr ''XYZ789'') [] (JStr ''I-1'') ''Warranty''
     undescribed_line ''2020-01-02'' ''2023-01-02''"

definition third_record :: "json \<Rightarrow> pydict" where
  "third_record ono = line_data ono (JStr ''XYZ789'') [] (JStr ''I-3'') ''Warranty''
     list_line ''2021-05-06'' ''2024-05-06''"

section \<open>Properties\<close>

subsection \<open>Auxiliary facts\<close>

lemma str_contains_iff: "str_contains needle s \<longleftrightarrow> (\<exists>ps ss. s = ps @ needle @ ss)"
proof (induction s)
  case Nil
  then show ?case by auto
next
  case (Cons c cs)
  have "sublist needle (c # cs) \<longleftrightarrow> prefix needle (c # cs) \<or> sublist needle cs"
    by (rule sublist_Cons_right)
  with Cons show ?case
    by (simp add: sublist_def)
qed

lemma py_add_JStr_right: "py_add x (JStr e) = Inr h \<Longrightarrow> \<exists>a. x = JStr a \<and> h = JStr (a @ e)"
  by (cases x) (auto split: option.splits)

lemma hd_str_split: "str_split sep s \<noteq> [] \<and> hd (str_split sep s) = takeWhile (\<lambda>c. c \<noteq> sep) s"
  by (induction s) (auto split: list.splits)

lemma split_T_0_JStr: "split_T_0 (JStr s) = Inr (date_portion s)"
  using hd_str_split [of "CHR ''T''" s]
  by (auto simp: split_T_0_def date_portion_def split: list.splits)

lemma hasher_JStr: "hasher (JStr s) (JStr c) e = Inr (JStr (s @ c @ e))"
  by (simp add: hasher_def py_bind_def)

lemma hasher_Inr: "hasher serial c e = Inr h \<Longrightarrow> \<exists>key. h = JStr key"
  by (auto simp: hasher_def py_bind_def split: sum.splits dest: py_add_JStr_right)

lemma contract_type_values: "contract_type g p = Inr t \<Longrightarrow> t = ''Warranty'' \<or> t = ''Service''"
  by (auto simp: contract_type_def py_and_def split: if_splits sum.splits bool.splits)

lemma map_of_set_service_type:
  "k \<noteq> ''line_service_type'' \<Longrightarrow> map_of (set_service_type sub d) k = map_of d k"
  by (simp add: set_service_type_def update_conv' split: sum.splits)

lemma map_of_line_header:
  "map_of (line_header ono serial ship_date) =
     [''order_no'' \<mapsto> ono, ''completed'' \<mapsto> JStr ''yes'', ''vendor'' \<mapsto> JStr ''Dell Inc.'',
      ''line_device_serial_nos'' \<mapsto> serial, ''line_type'' \<mapsto> JStr ''contract'',
      ''line_item_type'' \<mapsto> JStr ''device'', ''line_completed'' \<mapsto> JStr ''yes'']
     ++ (if ship_date \<noteq> [] then [''po_date'' \<mapsto> JStr ship_date] else Map.empty)"
  by (auto simp: line_header_def Let_def update_conv' fun_eq_iff map_add_def)

lemma check_and_upload_effect:
  assumes "check_and_upload self serial c sd ed data w = Inr w'"
  shows "w' = w \<or> w' = w\<lparr>printed := printed w @ [DuplicateFound serial c ed]\<rparr>
         \<or> w' = upload_data self data w"
  using assms
  by (auto simp: check_and_upload_def split: sum.splits json.splits option.splits if_splits)

lemma getitem_line_data:
  "getitem (JDict (line_data ono serial ship_date cid ct sub sd ed)) ''order_no'' = Inr ono"
  "getitem (JDict (line_data ono serial ship_date cid ct sub sd ed)) ''line_device_serial_nos'' = Inr serial"
  "getitem (JDict (line_data ono serial ship_date cid ct sub sd ed)) ''line_contract_id'' = Inr cid"
  "getitem (JDict (line_data ono serial ship_date cid ct sub sd ed)) ''line_notes'' = Inr cid"
  "getitem (JDict (line_data ono serial ship_date cid ct sub sd ed)) ''line_contract_type'' = Inr (JStr ct)"
  "getitem (JDict (line_data ono serial ship_date cid ct sub sd ed)) ''line_start_date'' = Inr (JStr sd)"
  "getitem (JDict (line_data ono serial ship_date cid ct sub sd ed)) ''line_end_date'' = Inr (JStr ed)"
  "getitem (JDict (line_data ono serial ship_date cid ct sub sd ed)) ''vendor'' = Inr (JStr ''Dell Inc.'')"
  "getitem (JDict (line_data ono serial ship_date cid ct sub sd ed)) ''completed'' = Inr (JStr ''yes'')"
  "getitem (JDict (line_data ono serial ship_date cid ct sub sd ed)) ''po_date'' =
     (if ship_date \<noteq> [] then Inr (JStr ship_date) else Inl KeyError)"
  by (simp_all add: line_data_def Let_def update_conv' map_of_set_service_type map_of_line_header)

lemma process_line_effect:
  assumes "process_line self ono serial asset product sub w = Inr w'"
  shows "w' = w \<or> (\<exists>d. w' = w\<lparr>printed := printed w @ [d]\<rparr>)
         \<or> (\<exists>u. w' = upload_data self u w
                \<and> line_class product sub = Inr ''Warranty''
                \<and> getitem (JDict u) ''order_no'' = Inr ono
                \<and> getitem (JDict u) ''line_device_serial_nos'' = Inr serial
                \<and> getitem (JDict u) ''line_contract_id'' = getitem sub ''ItemNumber''
                \<and> getitem (JDict u) ''line_contract_type'' = Inr (JStr ''Warranty''))"
proof -
  from assms obtain ship ship_date pid cid g ct where
    r: "getitem asset ''ShipDate'' = Inr ship" "split_T_0 ship = Inr ship_date"
       "getitem product ''ProductId'' = Inr pid" "getitem sub ''ItemNumber'' = Inr cid"
       "getitem sub ''ServiceLevelGroup'' = Inr g" "contract_type g pid = Inr ct"
    by (auto simp: process_line_def py_bind_def split: sum.splits)
  show ?thesis
  proof (cases "ct = ''Service''")
    case True
    with assms r show ?thesis by (simp add: process_line_def py_bind_def)
  next
    case False
    with r have ct: "ct = ''Warranty''" using contract_type_values by blast
    from assms r False obtain sd ed where
      c: "check_and_upload self serial cid sd ed
            (line_data ono serial ship_date cid ct sub sd ed) w = Inr w'"
      by (auto simp: process_line_def py_bind_def split: sum.splits)
    have lc: "line_class product sub = Inr ''Warranty''"
      using r ct by (simp add: line_class_def py_bind_def)
    let ?u = "line_data ono serial ship_date cid ct sub sd ed"
    from check_and_upload_effect [OF c] consider
      "w' = w" | "w' = w\<lparr>printed := printed w @ [DuplicateFound serial cid ed]\<rparr>"
      | "w' = upload_data self ?u w" by blast
    then show ?thesis
    proof cases
      case 1
      then show ?thesis by simp
    next
      case 2
      then show ?thesis by blast
    next
      case 3
      have "getitem (JDict ?u) ''order_no'' = Inr ono
            \<and> getitem (JDict ?u) ''line_device_serial_nos'' = Inr serial
            \<and> getitem (JDict ?u) ''line_contract_id'' = getitem sub ''ItemNumber''
            \<and> getitem (JDict ?u) ''line_contract_type'' = Inr (JStr ''Warranty'')"
        using r(4) ct by (simp add: getitem_line_data del: getitem.simps)
      with 3 lc show ?thesis by blast
    qed
  qed
qed

lemma process_lines_effect:
  assumes "process_lines self ono serial asset product subs w = (err, w')"
    and "getitem asset ''ServiceTag'' = Inr serial"
  shows "\<exists>new ls. uploads w' = uploads w @ new
           \<and> purchases w' = fold (d42_rest self) new (purchases w)
           \<and> entropy w' = entropy w \<and> drawn w' = drawn w
           \<and> subseq ls subs
           \<and> list_all2 uploaded_for new (map (\<lambda>sub_item. (asset, product, sub_item)) ls)
           \<and> (\<forall>u\<in>set new. getitem (JDict u) ''order_no'' = Inr ono)"
  using assms(1)
proof (induction subs arbitrary: w)
  case Nil
  then show ?case by auto
next
  case (Cons sub rest)
  show ?case
  proof (cases "process_line self ono serial asset product sub w")
    case (Inl e)
    with Cons.prems have "w' = w" by simp
    then show ?thesis by auto
  next
    case (Inr w1)
    with Cons.prems have "process_lines self ono serial asset product rest w1 = (err, w')"
      by simp
    from Cons.IH [OF this] obtain new ls where
      ih: "uploads w' = uploads w1 @ new"
          "purchases w' = fold (d42_rest self) new (purchases w1)"
          "entropy w' = entropy w1" "drawn w' = drawn w1" "subseq ls rest"
          "list_all2 uploaded_for new (map (\<lambda>sub_item. (asset, product, sub_item)) ls)"
          "\<forall>u\<in>set new. getitem (JDict u) ''order_no'' = Inr ono"
      by blast
    from process_line_effect [OF Inr] consider
      (same) "uploads w1 = uploads w" "purchases w1 = purchases w"
             "entropy w1 = entropy w" "drawn w1 = drawn w"
      | (up) u where "w1 = upload_data self u w"
             "line_class product sub = Inr ''Warranty''"
             "getitem (JDict u) ''order_no'' = Inr ono"
             "getitem (JDict u) ''line_device_serial_nos'' = Inr serial"
             "getitem (JDict u) ''line_contract_id'' = getitem sub ''ItemNumber''"
             "getitem (JDict u) ''line_contract_type'' = Inr (JStr ''Warranty'')"
      by auto
    then show ?thesis
    proof cases
      case same
      have "subseq ls (sub # rest)" using ih(5) by (rule list_emb_Cons)
      with ih same show ?thesis by (intro exI [of _ new] exI [of _ ls]) simp
    next
      case up
      have m: "uploaded_for u (asset, product, sub)"
        using up assms(2) by (simp add: uploaded_for_def del: getitem.simps)
      have "subseq (sub # ls) (sub # rest)" using ih(5) by simp
      with ih up m show ?thesis
        by (intro exI [of _ "u # new"] exI [of _ "sub # ls"])
           (simp add: upload_data_def del: getitem.simps)
    qed
  qed
qed

lemma order_no_loop_eq:
  "order_no_loop n acc w =
     (acc @ map (\<lambda>i. ''0123456789'' ! (entropy w (drawn w + i) mod 10)) [0..<n],
      w\<lparr>drawn := drawn w + n\<rparr>)"
proof (induction n arbitrary: acc w)
  case 0
  then show ?case by simp
next
  case (Suc n)
  show ?case
    by (simp add: randint_0_9_def str_digit_def Suc.IH map_upt_Suc del: upt_Suc)
qed

lemma generate_random_order_no_eq:
  "generate_random_order_no w =
     (map (\<lambda>i. ''0123456789'' ! (entropy w (drawn w + i) mod 10)) [0..<9],
      w\<lparr>drawn := drawn w + 9\<rparr>)"
  by (simp add: generate_random_order_no_def order_no_loop_eq del: upt_Suc)

lemma digit_char: "d < 10 \<Longrightarrow> ''0123456789'' ! d \<in> set ''0123456789''"
  by (rule nth_mem) simp

lemma resolve_order_no_world:
  assumes "resolve_order_no self asset w = (r, w1)"
  shows "uploads w1 = uploads w \<and> purchases w1 = purchases w \<and> printed w1 = printed w
         \<and> entropy w1 = entropy w \<and> drawn w \<le> drawn w1"
  using assms
  by (auto simp: resolve_order_no_def generate_random_order_no_eq split: if_splits)

lemma bad_asset_diag_world:
  "uploads (bad_asset_diag result w) = uploads w
   \<and> purchases (bad_asset_diag result w) = purchases w
   \<and> entropy (bad_asset_diag result w) = entropy w
   \<and> drawn (bad_asset_diag result w) = drawn w"
  by (simp add: bad_asset_diag_def split: sum.splits)

lemma process_item_effect:
  assumes "process_item self result item w = (err, w')"
  shows "\<exists>new ls. uploads w' = uploads w @ new
           \<and> purchases w' = fold (d42_rest self) new (purchases w)
           \<and> entropy w' = entropy w \<and> drawn w \<le> drawn w'
           \<and> subseq ls (lines_of_item item)
           \<and> list_all2 uploaded_for new ls
           \<and> (\<forall>u\<in>set new. \<exists>asset. getitem item ''AssetHeaderData'' = Inr asset
                  \<and> getitem (JDict u) ''order_no'' = fst (resolve_order_no self asset w))"
proof (cases "sections item")
  case (Inl e)
  with assms have "uploads w' = uploads w \<and> purchases w' = purchases w
      \<and> entropy w' = entropy w \<and> drawn w' = drawn w"
    by (auto simp: process_item_def bad_asset_diag_world split: if_splits)
  then show ?thesis by (intro exI [of _ "[]"]) simp
next
  case (Inr t)
  then obtain warranties asset product where t: "sections item = Inr (warranties, asset, product)"
    by (cases t) auto
  then have hd: "getitem item ''AssetHeaderData'' = Inr asset"
    by (auto simp: sections_def py_bind_def split: sum.splits)
  obtain r w1 where ro: "resolve_order_no self asset w = (r, w1)"
    by (cases "resolve_order_no self asset w")
  note w1 = resolve_order_no_world [OF ro]
  have trivial: ?thesis if "w' = w1"
    using that w1 by (intro exI [of _ "[]"]) simp
  show ?thesis
  proof (cases r)
    case (Inl e)
    with assms t ro have "w' = w1" by (simp add: process_item_def)
    then show ?thesis by (rule trivial)
  next
    case ono: (Inr ono)
    show ?thesis
    proof (cases "getitem asset ''ServiceTag''")
      case (Inl e)
      with assms t ro ono have "w' = w1" by (simp add: process_item_def)
      then show ?thesis by (rule trivial)
    next
      case serial: (Inr serial)
      show ?thesis
      proof (cases "py_iter warranties")
        case (Inl e)
        with assms t ro ono serial have "w' = w1" by (simp add: process_item_def)
        then show ?thesis by (rule trivial)
      next
        case (Inr subs)
        with assms t ro ono serial
        have "process_lines self ono serial asset product subs w1 = (err, w')"
          by (simp add: process_item_def)
        from process_lines_effect [OF this serial] obtain new ls where
          pl: "uploads w' = uploads w1 @ new"
              "purchases w' = fold (d42_rest self) new (purchases w1)"
              "entropy w' = entropy w1" "drawn w' = drawn w1" "subseq ls subs"
              "list_all2 uploaded_for new (map (\<lambda>sub_item. (asset, product, sub_item)) ls)"
              "\<forall>u\<in>set new. getitem (JDict u) ''order_no'' = Inr ono"
          by blast
        have li: "lines_of_item item = map (\<lambda>sub_item. (asset, product, sub_item)) subs"
          using t Inr by (simp add: lines_of_item_def)
        have "subseq (map (\<lambda>sub_item. (asset, product, sub_item)) ls) (lines_of_item item)"
          unfolding li using pl(5) by (rule subseq_map)
        with pl w1 hd ro ono show ?thesis
          by (intro exI [of _ new] exI [of _ "map (\<lambda>sub_item. (asset, product, sub_item)) ls"])
             (simp del: getitem.simps)
      qed
    qed
  qed
qed

lemma process_items_effect:
  assumes "process_items self result items w = (err, w')"
  shows "\<exists>new ls. uploads w' = uploads w @ new
           \<and> purchases w' = fold (d42_rest self) new (purchases w)
           \<and> entropy w' = entropy w \<and> drawn w \<le> drawn w'
           \<and> subseq ls (concat (map lines_of_item items))
           \<and> list_all2 uploaded_for new ls
           \<and> (\<forall>u\<in>set new. \<exists>asset v.
                  getitem (JDict u) ''order_no'' = fst (resolve_order_no self asset v))"
  using assms
proof (induction items arbitrary: w)
  case Nil
  then show ?case by (intro exI [of _ "[]"]) simp
next
  case (Cons item rest)
  obtain e1 w1 where pi: "process_item self result item w = (e1, w1)"
    by (cases "process_item self result item w")
  from process_item_effect [OF pi] obtain new1 ls1 where
    a: "uploads w1 = uploads w @ new1"
       "purchases w1 = fold (d42_rest self) new1 (purchases w)"
       "entropy w1 = entropy w" "drawn w \<le> drawn w1"
       "subseq ls1 (lines_of_item item)" "list_all2 uploaded_for new1 ls1"
       "\<forall>u\<in>set new1. \<exists>asset v.
           getitem (JDict u) ''order_no'' = fst (resolve_order_no self asset v)"
    by blast
  show ?case
  proof (cases e1)
    case (Some e)
    with Cons.prems pi have "w' = w1" by simp
    moreover have "subseq ls1 (concat (map lines_of_item (item # rest)))"
      using a(5) by (simp add: subseq_rev_drop_many)
    ultimately show ?thesis using a by blast
  next
    case None
    with Cons.prems pi have "process_items self result rest w1 = (err, w')" by simp
    from Cons.IH [OF this] obtain new2 ls2 where
      b: "uploads w' = uploads w1 @ new2"
         "purchases w' = fold (d42_rest self) new2 (purchases w1)"
         "entropy w' = entropy w1" "drawn w1 \<le> drawn w'"
         "subseq ls2 (concat (map lines_of_item rest))" "list_all2 uploaded_for new2 ls2"
         "\<forall>u\<in>set new2. \<exists>asset v.
             getitem (JDict u) ''order_no'' = fst (resolve_order_no self asset v)"
      by blast
    have "subseq (ls1 @ ls2) (concat (map lines_of_item (item # rest)))"
      using a(5) b(5) by (simp add: list_emb_append_mono)
    moreover have "list_all2 uploaded_for (new1 @ new2) (ls1 @ ls2)"
      using a(6) b(6) by (rule list_all2_appendI)
    moreover have "\<forall>u\<in>set (new1 @ new2). \<exists>asset v.
        getitem (JDict u) ''order_no'' = fst (resolve_order_no self asset v)"
      using a(7) b(7) by (simp only: set_append Un_iff) blast
    ultimately show ?thesis using a(1-4) b(1-4)
      by (intro exI [of _ "new1 @ new2"] exI [of _ "ls1 @ ls2"]) simp
  qed
qed

lemma process_result_effect:
  assumes "process_result self result w = (err, w')"
  shows "\<exists>new ls. uploads w' = uploads w @ new
           \<and> purchases w' = fold (d42_rest self) new (purchases w)
           \<and> entropy w' = entropy w \<and> drawn w \<le> drawn w'
           \<and> subseq ls (entitlement_lines result)
           \<and> list_all2 uploaded_for new ls
           \<and> (\<forall>u\<in>set new. \<exists>asset v.
                  getitem (JDict u) ''order_no'' = fst (resolve_order_no self asset v))"
proof (cases "\<exists>response items. getitem result ''AssetWarrantyResponse'' = Inr response
                \<and> py_iter response = Inr items")
  case True
  then obtain response items where
    r: "getitem result ''AssetWarrantyResponse'' = Inr response" "py_iter response = Inr items"
    by blast
  have el: "entitlement_lines result = concat (map lines_of_item items)"
    using r by (simp add: entitlement_lines_def)
  show ?thesis
  proof (cases "py_in ''AssetWarrantyResponse'' result = Inr True")
    case True
    with assms r have "process_items self result items w = (err, w')"
      by (simp add: process_result_def)
    from process_items_effect [OF this] show ?thesis unfolding el .
  next
    case False
    with assms have "w' = w"
      by (auto simp: process_result_def split: sum.splits bool.splits)
    then show ?thesis by (intro exI [of _ "[]"]) simp
  qed
next
  case False
  with assms have "w' = w"
    by (auto simp: process_result_def split: sum.splits bool.splits)
  then show ?thesis by (intro exI [of _ "[]"]) simp
qed

lemmas example_defs = example_self_def example_world_def example_asset_def example_product_def
  warranty_line_def service_line_def example_item_def example_payload_def malformed_payload_def

text \<open>No read of line 63 to 65 raises \<open>IndexError\<close>: the handler of line 66 is never entered.\<close>

lemma sections_no_IndexError: "sections item \<noteq> Inl IndexError"
  by (cases item) (auto simp: sections_def py_bind_def split: sum.splits option.splits)

lemma process_line_warranty:
  assumes "line_class product sub = Inr ''Warranty''"
    and "getitem asset ''ShipDate'' = Inr (JStr ship)"
    and "getitem sub ''ItemNumber'' = Inr cid"
    and "getitem sub ''StartDate'' = Inr (JStr start)"
    and "getitem sub ''EndDate'' = Inr (JStr end')"
  shows "process_line self ono serial asset product sub w =
           check_and_upload self serial cid (date_portion start) (date_portion end')
             (line_data ono serial (date_portion ship) cid ''Warranty'' sub
                (date_portion start) (date_portion end')) w"
proof -
  from assms(1) obtain pid g where
    "getitem product ''ProductId'' = Inr pid" "getitem sub ''ServiceLevelGroup'' = Inr g"
    "contract_type g pid = Inr ''Warranty''"
    by (auto simp: line_class_def py_bind_def split: sum.splits)
  with assms(2-) show ?thesis
    by (simp add: process_line_def py_bind_def split_T_0_JStr)
qed

lemma process_line_service:
  assumes "line_class product sub = Inr ''Service''"
    and "getitem asset ''ShipDate'' = Inr (JStr ship)"
    and "getitem sub ''ItemNumber'' = Inr cid"
  shows "process_line self ono serial asset product sub w = Inr w"
proof -
  from assms(1) obtain pid g where
    "getitem product ''ProductId'' = Inr pid" "getitem sub ''ServiceLevelGroup'' = Inr g"
    "contract_type g pid = Inr ''Service''"
    by (auto simp: line_class_def py_bind_def split: sum.splits)
  with assms(2-) show ?thesis
    by (simp add: process_line_def py_bind_def split_T_0_JStr)
qed

lemma check_and_upload_seen:
  assumes "purchases w (serial @ cid @ ed) = Some (d_start, d_end)"
  shows "check_and_upload self (JStr serial) (JStr cid) sd ed data w =
           Inr (if d_start = sd \<and> d_end = ed
                then w\<lparr>printed := printed w @ [DuplicateFound (JStr serial) (JStr cid) ed]\<rparr>
                else w)"
  using assms by (simp add: check_and_upload_def hasher_JStr)

lemma check_and_upload_unseen:
  assumes "purchases w (serial @ cid @ ed) = None"
  shows "check_and_upload self (JStr serial) (JStr cid) sd ed data w =
           Inr (upload_data self data w)"
  using assms by (simp add: check_and_upload_def hasher_JStr)

lemma getitem_service_type:
  "getitem (JDict (line_data ono serial ship_date cid ct sub sd ed)) ''line_service_type'' =
     (case getitem sub ''ServiceLevelDescription'' of
        Inr (JStr d) \<Rightarrow> Inr (JStr (take 32 d))
      | Inr (JList xs) \<Rightarrow> Inr (JList (take 32 xs))
      | _ \<Rightarrow> Inl KeyError)"
  by (simp add: line_data_def Let_def update_conv' set_service_type_def map_of_line_header
      split: sum.splits json.splits)

lemma random_order_no_digits:
  "length (fst (generate_random_order_no w)) = 9
   \<and> set (fst (generate_random_order_no w)) \<subseteq> set ''0123456789''"
proof -
  have "''0123456789'' ! (entropy w (drawn w + i) mod 10) \<in> set ''0123456789''" for i
    by (rule digit_char) simp
  then show ?thesis
    unfolding generate_random_order_no_eq by (auto simp del: upt_Suc)
qed

lemma process_item_drawn:
  assumes "order_no self \<noteq> ''vendor''" "order_no self \<noteq> ''common''"
    and "sections item = Inr t"
  shows "drawn (snd (process_item self result item w)) = drawn w + 9"
proof -
  obtain warranties asset product where t: "t = (warranties, asset, product)"
    by (cases t) auto
  let ?w1 = "snd (generate_random_order_no w)"
  have r: "resolve_order_no self asset w = (Inr (JStr (fst (generate_random_order_no w))), ?w1)"
    using assms(1,2) by (simp add: resolve_order_no_def split: prod.splits)
  have d: "drawn ?w1 = drawn w + 9"
    by (simp add: generate_random_order_no_eq del: upt_Suc)
  show ?thesis
  proof (cases "\<exists>serial subs. getitem asset ''ServiceTag'' = Inr serial
                  \<and> py_iter warranties = Inr subs")
    case True
    then obtain serial subs where
      s: "getitem asset ''ServiceTag'' = Inr serial" "py_iter warranties = Inr subs"
      by blast
    obtain err w' where
      pl: "process_lines self (JStr (fst (generate_random_order_no w))) serial asset product
             subs ?w1 = (err, w')"
      by (cases "process_lines self (JStr (fst (generate_random_order_no w))) serial asset
                   product subs ?w1")
    from process_lines_effect [OF pl s(1)] have "drawn w' = drawn ?w1" by blast
    moreover have "process_item self result item w = (err, w')"
      using assms(3) t r s pl by (simp add: process_item_def)
    ultimately show ?thesis using d by simp
  next
    case False
    then have "snd (process_item self result item w) = ?w1"
      using assms(3) t r by (auto simp: process_item_def split: sum.splits)
    then show ?thesis using d by simp
  qed
qed

lemma Dell_init_common:
  assumes "ORDER_NO_TYPE cfg = ''common''"
  shows "order_no (fst (Dell_init ps cfg v)) = ''common''
         \<and> common (fst (Dell_init ps cfg v)) = Some (fst (generate_random_order_no v))"
  using assms by (simp add: Dell_init_def Let_def split: prod.splits)

subsection \<open>The loop body on a warranty line that is reached\<close>

lemma process_line_seen_key:
  assumes "line_class product sub_item = Inr ''Warranty''"
    and "getitem asset ''ShipDate'' = Inr (JStr ship)"
    and "getitem sub_item ''ItemNumber'' = Inr (JStr contract_id)"
    and "getitem sub_item ''StartDate'' = Inr (JStr start)"
    and "getitem sub_item ''EndDate'' = Inr (JStr end')"
    and "purchases w (serial @ contract_id @ date_portion end') = Some (d_start, d_end)"
  shows "hasher (JStr serial) (JStr contract_id) (date_portion end')
           = Inr (JStr (serial @ contract_id @ date_portion end'))
         \<and> process_line self order_no' (JStr serial) asset product sub_item w
           = Inr (if d_start = date_portion start \<and> d_end = date_portion end'
                  then w\<lparr>printed := printed w
                           @ [DuplicateFound (JStr serial) (JStr contract_id)
                                (date_portion end')]\<rparr>
                  else w)"
  using process_line_warranty [OF assms(1-5)] check_and_upload_seen [OF assms(6)]
  by (simp add: hasher_JStr)

lemma process_line_unseen_key:
  assumes "line_class product sub_item = Inr ''Warranty''"
    and "getitem asset ''ShipDate'' = Inr (JStr ship)"
    and "getitem sub_item ''ItemNumber'' = Inr (JStr contract_id)"
    and "getitem sub_item ''StartDate'' = Inr (JStr start)"
    and "getitem sub_item ''EndDate'' = Inr (JStr end')"
    and "purchases w (serial @ contract_id @ date_portion end') = None"
  shows "\<exists>data.
           process_line self order_no' (JStr serial) asset product sub_item w
             = Inr (w\<lparr>uploads := uploads w @ [data],
                      purchases := d42_rest self data (purchases w)\<rparr>)
           \<and> getitem (JDict data) ''order_no'' = Inr order_no'
           \<and> getitem (JDict data) ''po_date''
               = (if date_portion ship \<noteq> [] then Inr (JStr (date_portion ship))
                  else Inl KeyError)
           \<and> getitem (JDict data) ''vendor'' = Inr (JStr ''Dell Inc.'')
           \<and> getitem (JDict data) ''line_device_serial_nos'' = Inr (JStr serial)
           \<and> getitem (JDict data) ''line_contract_id'' = Inr (JStr contract_id)
           \<and> getitem (JDict data) ''line_notes'' = Inr (JStr contract_id)
           \<and> getitem (JDict data) ''line_start_date'' = Inr (JStr (date_portion start))
           \<and> getitem (JDict data) ''line_end_date'' = Inr (JStr (date_portion end'))
           \<and> getitem (JDict data) ''completed'' = Inr (JStr ''yes'')"
proof -
  let ?data = "line_data order_no' (JStr serial) (date_portion ship) (JStr contract_id)
                 ''Warranty'' sub_item (date_portion start) (date_portion end')"
  have "process_line self order_no' (JStr serial) asset product sub_item w
          = Inr (upload_data self ?data w)"
    using process_line_warranty [OF assms(1-5)] check_and_upload_unseen [OF assms(6)]
    by simp
  then show ?thesis
    by (intro exI [of _ ?data]) (simp add: upload_data_def getitem_line_data del: getitem.simps)
qed

subsection \<open>Every uploaded record is the prescribed one\<close>

lemma split_T_0_Inr: "split_T_0 v = Inr x \<Longrightarrow> \<exists>s. v = JStr s \<and> x = date_portion s"
  using split_T_0_JStr by (cases v) (auto simp: split_T_0_def)

lemma service_type_of_Inl: "service_type_of sub = Inl e \<Longrightarrow> e = KeyError"
  by (auto simp: service_type_of_def split: sum.splits json.splits)

lemma map_of_line_header_at:
  "map_of (line_header ono serial ship_date) k =
     (if k = ''po_date'' then (if ship_date \<noteq> [] then Some (JStr ship_date) else None)
      else if k = ''line_completed'' then Some (JStr ''yes'')
      else if k = ''line_item_type'' then Some (JStr ''device'')
      else if k = ''line_type'' then Some (JStr ''contract'')
      else if k = ''line_device_serial_nos'' then Some serial
      else if k = ''vendor'' then Some (JStr ''Dell Inc.'')
      else if k = ''completed'' then Some (JStr ''yes'')
      else if k = ''order_no'' then Some ono
      else None)"
  by (simp add: line_header_def Let_def update_conv')

lemma map_of_line_data:
  "map_of (line_data ono serial ship_date cid ct sub sd ed) k =
     (if k = ''line_end_date'' then Some (JStr ed)
      else if k = ''line_start_date'' then Some (JStr sd)
      else if k = ''line_service_type''
      then (case service_type_of sub of Inl e \<Rightarrow> None | Inr v \<Rightarrow> Some v)
      else if k = ''line_contract_type'' then Some (JStr ct)
      else if k = ''line_contract_id'' then Some cid
      else if k = ''line_notes'' then Some cid
      else map_of (line_header ono serial ship_date) k)"
proof -
  have h: "map_of (line_header ono serial ship_date) ''line_service_type'' = None"
    by (simp add: map_of_line_header_at)
  have s: "map_of (set_service_type sub d) k =
      (if k = ''line_service_type''
       then (case service_type_of sub of Inl e \<Rightarrow> map_of d k | Inr v \<Rightarrow> Some v)
       else map_of d k)" for d
    by (simp add: set_service_type_def service_type_of_def update_conv'
        split: sum.splits json.splits)
  show ?thesis
    by (simp add: line_data_def Let_def update_conv' s h split: sum.splits)
qed

lemma getitem_JDict: "getitem (JDict u) k = (case map_of u k of None \<Rightarrow> Inl KeyError | Some v \<Rightarrow> Inr v)"
  by simp

lemma line_data_expected:
  assumes "getitem asset ''ShipDate'' = Inr (JStr ship)"
    and "getitem asset ''ServiceTag'' = Inr serial"
    and "getitem sub ''ItemNumber'' = Inr cid"
    and "getitem sub ''StartDate'' = Inr (JStr start)"
    and "getitem sub ''EndDate'' = Inr (JStr end')"
  shows "getitem (JDict (line_data ono serial (date_portion ship) cid ''Warranty'' sub
            (date_portion start) (date_portion end'))) k
         = expected_field (Inr ono) asset sub k"
proof -
  have d: "date_of asset ''ShipDate'' = Inr (JStr (date_portion ship))"
    "date_of sub ''StartDate'' = Inr (JStr (date_portion start))"
    "date_of sub ''EndDate'' = Inr (JStr (date_portion end'))"
    using assms by (simp_all add: date_of_def)
  have s: "(case service_type_of sub of Inl e \<Rightarrow> Inl KeyError | Inr v \<Rightarrow> Inr v)
      = service_type_of sub"
    using service_type_of_Inl [of sub] by (cases "service_type_of sub") auto
  have c: "(case (case service_type_of sub of Inl e \<Rightarrow> None | Inr v \<Rightarrow> Some v) of
              None \<Rightarrow> Inl KeyError | Some v \<Rightarrow> Inr v) = service_type_of sub"
    using s by (cases "service_type_of sub") auto
  show ?thesis
    unfolding getitem_JDict map_of_line_data map_of_line_header_at expected_field_def d
      assms(2,3)
    by (simp add: c)
qed

lemma process_line_record:
  assumes "process_line self ono serial asset product sub w = Inr w'"
    and "getitem asset ''ServiceTag'' = Inr serial"
  shows "w' = w \<or> (\<exists>d. w' = w\<lparr>printed := printed w @ [d]\<rparr>)
         \<or> (\<exists>u. w' = upload_data self u w
                \<and> line_class product sub = Inr ''Warranty''
                \<and> (\<forall>k. getitem (JDict u) k = expected_field (Inr ono) asset sub k))"
proof -
  from assms(1) obtain ship ship_date pid cid g ct where
    r: "getitem asset ''ShipDate'' = Inr ship" "split_T_0 ship = Inr ship_date"
       "getitem product ''ProductId'' = Inr pid" "getitem sub ''ItemNumber'' = Inr cid"
       "getitem sub ''ServiceLevelGroup'' = Inr g" "contract_type g pid = Inr ct"
    by (auto simp: process_line_def py_bind_def split: sum.splits)
  show ?thesis
  proof (cases "ct = ''Service''")
    case True
    with assms(1) r show ?thesis by (simp add: process_line_def py_bind_def)
  next
    case False
    with r have ct: "ct = ''Warranty''" using contract_type_values by blast
    from assms(1) r False obtain start sd end' ed where
      d: "getitem sub ''StartDate'' = Inr start" "split_T_0 start = Inr sd"
         "getitem sub ''EndDate'' = Inr end'" "split_T_0 end' = Inr ed"
      and c: "check_and_upload self serial cid sd ed
            (line_data ono serial ship_date cid ct sub sd ed) w = Inr w'"
      by (auto simp: process_line_def py_bind_def split: sum.splits)
    from r(2) obtain ship_s where ship: "ship = JStr ship_s" "ship_date = date_portion ship_s"
      using split_T_0_Inr by blast
    from d(2) obtain start_s where start: "start = JStr start_s" "sd = date_portion start_s"
      using split_T_0_Inr by blast
    from d(4) obtain end_s where en: "end' = JStr end_s" "ed = date_portion end_s"
      using split_T_0_Inr by blast
    have lc: "line_class product sub = Inr ''Warranty''"
      using r ct by (simp add: line_class_def py_bind_def)
    let ?u = "line_data ono serial ship_date cid ct sub sd ed"
    have f: "\<forall>k. getitem (JDict ?u) k = expected_field (Inr ono) asset sub k"
      unfolding ship start en ct
      using line_data_expected [of asset ship_s serial sub cid start_s end_s ono]
        r(1,4) d(1,3) assms(2) ship(1) start(1) en(1)
      by blast
    from check_and_upload_effect [OF c] consider
      "w' = w" | "w' = w\<lparr>printed := printed w @ [DuplicateFound serial cid ed]\<rparr>"
      | "w' = upload_data self ?u w" by blast
    then show ?thesis
    proof cases
      case 1
      then show ?thesis by simp
    next
      case 2
      then show ?thesis by blast
    next
      case 3
      with lc f show ?thesis by blast
    qed
  qed
qed

lemma process_lines_records:
  assumes "process_lines self ono serial asset product subs w = (err, w')"
    and "getitem asset ''ServiceTag'' = Inr serial"
  shows "\<exists>new ls. uploads w' = uploads w @ new \<and> subseq ls subs
           \<and> list_all2 (\<lambda>u sub. line_class product sub = Inr ''Warranty''
                  \<and> (\<forall>k. getitem (JDict u) k = expected_field (Inr ono) asset sub k)) new ls"
  using assms(1)
proof (induction subs arbitrary: w)
  case Nil
  then show ?case by auto
next
  case (Cons sub rest)
  show ?case
  proof (cases "process_line self ono serial asset product sub w")
    case (Inl e)
    with Cons.prems have "w' = w" by simp
    then show ?thesis by auto
  next
    case (Inr w1)
    with Cons.prems have "process_lines self ono serial asset product rest w1 = (err, w')"
      by simp
    from Cons.IH [OF this] obtain new ls where
      ih: "uploads w' = uploads w1 @ new" "subseq ls rest"
          "list_all2 (\<lambda>u sub. line_class product sub = Inr ''Warranty''
                  \<and> (\<forall>k. getitem (JDict u) k = expected_field (Inr ono) asset sub k)) new ls"
      by blast
    from process_line_record [OF Inr assms(2)] consider
      (same) "uploads w1 = uploads w"
      | (up) u where "w1 = upload_data self u w"
             "line_class product sub = Inr ''Warranty''"
             "\<forall>k. getitem (JDict u) k = expected_field (Inr ono) asset sub k"
      by auto
    then show ?thesis
    proof cases
      case same
      have "subseq ls (sub # rest)" using ih(2) by (rule list_emb_Cons)
      with ih same show ?thesis by (intro exI [of _ new] exI [of _ ls]) simp
    next
      case up
      have "subseq (sub # ls) (sub # rest)" using ih(2) by simp
      with ih up show ?thesis
        by (intro exI [of _ "u # new"] exI [of _ "sub # ls"])
           (simp add: upload_data_def del: getitem.simps)
    qed
  qed
qed

lemma resolve_order_no_expected:
  assumes "entropy w1 = entropy w"
    and "order_no self \<noteq> ''vendor'' \<and> order_no self \<noteq> ''common'' \<longrightarrow> drawn w1 = drawn w + 9 * n"
  shows "fst (resolve_order_no self asset w1) = expected_order_no self w n asset"
  using assms
  by (simp add: resolve_order_no_def expected_order_no_def generate_random_order_no_eq
      del: upt_Suc)

lemma process_item_None_sections:
  assumes "process_item self result item w = (None, w')"
  shows "\<exists>t. sections item = Inr t"
  using assms sections_no_IndexError [of item]
  by (cases "sections item") (auto simp: process_item_def split: if_splits)

lemma process_item_records:
  assumes "process_item self result item w1 = (err, w')"
    and "entropy w1 = entropy w"
    and "order_no self \<noteq> ''vendor'' \<and> order_no self \<noteq> ''common'' \<longrightarrow> drawn w1 = drawn w + 9 * n"
  shows "\<exists>new ls. uploads w' = uploads w1 @ new
           \<and> subseq ls (map (\<lambda>l. (n, l)) (lines_of_item item))
           \<and> list_all2 (record_for self w) new ls"
proof -
  have trivial: ?thesis if "uploads w' = uploads w1"
    using that by (intro exI [of _ "[]"]) simp
  show ?thesis
  proof (cases "sections item")
    case (Inl e)
    with assms(1) have "uploads w' = uploads w1"
      by (auto simp: process_item_def bad_asset_diag_world split: if_splits)
    then show ?thesis by (rule trivial)
  next
    case (Inr t)
    then obtain warranties asset product where
      t: "sections item = Inr (warranties, asset, product)"
      by (cases t) auto
    obtain r w2 where ro: "resolve_order_no self asset w1 = (r, w2)"
      by (cases "resolve_order_no self asset w1")
    note w2 = resolve_order_no_world [OF ro]
    from resolve_order_no_expected [OF assms(2,3), of asset] ro
    have ex: "r = expected_order_no self w n asset" by simp
    show ?thesis
    proof (cases "\<exists>ono serial subs. r = Inr ono \<and> getitem asset ''ServiceTag'' = Inr serial
                    \<and> py_iter warranties = Inr subs")
      case False
      with assms(1) t ro have "w' = w2"
        by (auto simp: process_item_def split: sum.splits)
      with w2 show ?thesis by (intro trivial) simp
    next
      case True
      then obtain ono serial subs where
        s: "r = Inr ono" "getitem asset ''ServiceTag'' = Inr serial"
           "py_iter warranties = Inr subs"
        by blast
      with assms(1) t ro
      have "process_lines self ono serial asset product subs w2 = (err, w')"
        by (simp add: process_item_def)
      from process_lines_records [OF this s(2)] obtain new ls where
        pl: "uploads w' = uploads w2 @ new" "subseq ls subs"
            "list_all2 (\<lambda>u sub. line_class product sub = Inr ''Warranty''
               \<and> (\<forall>k. getitem (JDict u) k = expected_field (Inr ono) asset sub k)) new ls"
        by blast
      let ?f = "\<lambda>sub. (n, asset, product, sub)"
      have li: "map (\<lambda>l. (n, l)) (lines_of_item item) = map ?f subs"
        using t s(3) by (simp add: lines_of_item_def)
      have sq: "subseq (map ?f ls) (map (\<lambda>l. (n, l)) (lines_of_item item))"
        unfolding li using pl(2) by (rule subseq_map)
      have "list_all2 (record_for self w) new (map ?f ls)"
        using pl(3) ex s(1)
        by (simp add: list_all2_map2 record_for_def del: getitem.simps)
      with pl(1) w2 sq show ?thesis
        by (intro exI [of _ new] exI [of _ "map ?f ls"]) simp
    qed
  qed
qed

lemma process_items_records:
  assumes "process_items self result items w1 = (err, w')"
    and "entropy w1 = entropy w"
    and "order_no self \<noteq> ''vendor'' \<and> order_no self \<noteq> ''common'' \<longrightarrow> drawn w1 = drawn w + 9 * n"
  shows "\<exists>new ls. uploads w' = uploads w1 @ new
           \<and> subseq ls (indexed_lines_from n items)
           \<and> list_all2 (record_for self w) new ls"
  using assms
proof (induction items arbitrary: w1 n)
  case Nil
  then show ?case by (intro exI [of _ "[]"]) simp
next
  case (Cons item rest)
  obtain e1 w2 where pi: "process_item self result item w1 = (e1, w2)"
    by (cases "process_item self result item w1")
  from process_item_records [OF pi Cons.prems(2,3)] obtain new1 ls1 where
    a: "uploads w2 = uploads w1 @ new1" "subseq ls1 (map (\<lambda>l. (n, l)) (lines_of_item item))"
       "list_all2 (record_for self w) new1 ls1"
    by blast
  show ?case
  proof (cases e1)
    case (Some e)
    with Cons.prems(1) pi have "w' = w2" by simp
    moreover have "subseq ls1 (indexed_lines_from n (item # rest))"
      using a(2) by (simp add: subseq_rev_drop_many)
    ultimately show ?thesis using a by blast
  next
    case None
    with Cons.prems(1) pi have r: "process_items self result rest w2 = (err, w')" by simp
    from process_item_effect [OF pi] have en: "entropy w2 = entropy w"
      using Cons.prems(2) by auto
    from pi None obtain t where t: "sections item = Inr t"
      using process_item_None_sections by blast
    have dr: "order_no self \<noteq> ''vendor'' \<and> order_no self \<noteq> ''common''
        \<longrightarrow> drawn w2 = drawn w + 9 * Suc n"
      using process_item_drawn [OF _ _ t, of self result w1] pi Cons.prems(3) by auto
    from Cons.IH [OF r en dr] obtain new2 ls2 where
      b: "uploads w' = uploads w2 @ new2" "subseq ls2 (indexed_lines_from (Suc n) rest)"
         "list_all2 (record_for self w) new2 ls2"
      by blast
    have "subseq (ls1 @ ls2) (indexed_lines_from n (item # rest))"
      using a(2) b(2) by (simp add: list_emb_append_mono)
    moreover have "list_all2 (record_for self w) (new1 @ new2) (ls1 @ ls2)"
      using a(3) b(3) by (rule list_all2_appendI)
    ultimately show ?thesis using a(1) b(1)
      by (intro exI [of _ "new1 @ new2"] exI [of _ "ls1 @ ls2"]) simp
  qed
qed

lemma process_result_records:
  "\<exists>new ls. uploads (snd (process_result self result w)) = uploads w @ new
     \<and> subseq ls (indexed_lines result)
     \<and> list_all2 (record_for self w) new ls"
proof (cases "\<exists>response items. getitem result ''AssetWarrantyResponse'' = Inr response
                \<and> py_iter response = Inr items
                \<and> py_in ''AssetWarrantyResponse'' result = Inr True")
  case True
  then obtain response items where
    r: "getitem result ''AssetWarrantyResponse'' = Inr response" "py_iter response = Inr items"
       "py_in ''AssetWarrantyResponse'' result = Inr True"
    by blast
  have el: "indexed_lines result = indexed_lines_from 0 items"
    using r by (simp add: indexed_lines_def)
  obtain err w' where p: "process_items self result items w = (err, w')"
    by (cases "process_items self result items w")
  from process_items_records [OF p, of w 0] obtain new ls where
    "uploads w' = uploads w @ new" "subseq ls (indexed_lines_from 0 items)"
    "list_all2 (record_for self w) new ls"
    by auto
  moreover have "process_result self result w = (err, w')"
    using r p by (simp add: process_result_def)
  ultimately show ?thesis unfolding el by auto
next
  case False
  then have "snd (process_result self result w) = w"
    by (auto simp: process_result_def split: sum.splits bool.splits)
  then show ?thesis by (intro exI [of _ "[]"]) simp
qed

lemma indexed_lines_from_snd: "map snd (indexed_lines_from n items) = concat (map lines_of_item items)"
  by (induction items arbitrary: n) (simp_all add: comp_def)

lemma indexed_lines_snd: "map snd (indexed_lines result) = entitlement_lines result"
  by (simp add: indexed_lines_def entitlement_lines_def indexed_lines_from_snd
      split: sum.splits)

lemma expected_field_at:
  "expected_field order asset sub ''order_no'' = order"
  "expected_field order asset sub ''line_contract_type'' = Inr (JStr ''Warranty'')"
  "expected_field order asset sub ''line_contract_id'' = getitem sub ''ItemNumber''"
  "expected_field order asset sub ''line_device_serial_nos'' = getitem asset ''ServiceTag''"
  "expected_field order asset sub ''line_service_type'' = service_type_of sub"
  by (simp_all add: expected_field_def)

lemma expected_field_other:
  assumes "getitem other ''ItemNumber'' = getitem sub ''ItemNumber''"
    and "getitem other ''StartDate'' = getitem sub ''StartDate''"
    and "getitem other ''EndDate'' = getitem sub ''EndDate''"
    and "k \<noteq> ''line_service_type''"
  shows "expected_field order asset other k = expected_field order asset sub k"
  unfolding expected_field_def date_of_def assms(1,2,3)
  using assms(4) by simp

lemma random_digits:
  "length (map (\<lambda>k. ''0123456789'' ! (f k mod 10)) [0..<9]) = 9
   \<and> set (map (\<lambda>k. ''0123456789'' ! (f k mod 10)) [0..<9]) \<subseteq> set ''0123456789''"
proof -
  have "''0123456789'' ! (f k mod 10) \<in> set ''0123456789''" for k
    by (rule digit_char) simp
  then show ?thesis by (auto simp del: upt_Suc)
qed

subsection \<open>The concrete inputs, evaluated\<close>

lemma warranty_line_class: "line_class example_product warranty_line = Inr ''Warranty''"
  by (simp add: example_defs line_class_def py_bind_def contract_type_def)

lemma service_line_class: "line_class example_product service_line = Inr ''Service''"
  by (simp add: example_defs line_class_def py_bind_def contract_type_def py_and_def)

lemma undescribed_line_class: "line_class example_product undescribed_line = Inr ''Warranty''"
  by (simp add: example_product_def undescribed_line_def line_class_def py_bind_def
      contract_type_def)

lemma example_dates:
  "date_portion ''2020-01-02T00:00:00'' = ''2020-01-02''"
  "date_portion ''2023-01-02T23:59:59'' = ''2023-01-02''"
  by (simp_all add: date_portion_def)

lemma example_fields:
  "getitem example_asset ''ShipDate'' = Inr (JStr ''2020-01-02T00:00:00'')"
  "getitem example_asset ''ServiceTag'' = Inr (JStr ''ABC123'')"
  "getitem example_asset ''OrderNumber'' = Inr (JStr ''777'')"
  "getitem warranty_line ''ItemNumber'' = Inr (JStr ''I-1'')"
  "getitem warranty_line ''StartDate'' = Inr (JStr ''2020-01-02T00:00:00'')"
  "getitem warranty_line ''EndDate'' = Inr (JStr ''2023-01-02T23:59:59'')"
  "getitem service_line ''ItemNumber'' = Inr (JStr ''I-2'')"
  by (simp_all add: example_asset_def warranty_line_def service_line_def)

lemma example_order_no: "fst (generate_random_order_no example_world) = ''012345678''"
  by (simp add: generate_random_order_no_eq example_world_def upt_conv_Cons del: upt_Suc)

lemma example_item_sections:
  "sections example_item = Inr (JList [warranty_line, service_line], example_asset, example_product)"
  by (simp add: example_item_def sections_def py_bind_def)

lemma example_lines:
  assumes "purchases w ''ABC123I-12023-01-02'' = None"
  shows "process_lines self ono (JStr ''ABC123'') example_asset example_product
           [warranty_line, service_line] w =
         (None, upload_data self
            (line_data ono (JStr ''ABC123'') ''2020-01-02'' (JStr ''I-1'') ''Warranty''
               warranty_line ''2020-01-02'' ''2023-01-02'') w)"
proof -
  have k: "purchases w (''ABC123'' @ ''I-1'' @ ''2023-01-02'') = None"
    using assms by simp
  have a: "process_line self ono (JStr ''ABC123'') example_asset example_product
             warranty_line w =
           Inr (upload_data self
             (line_data ono (JStr ''ABC123'') ''2020-01-02'' (JStr ''I-1'') ''Warranty''
                warranty_line ''2020-01-02'' ''2023-01-02'') w)"
    using process_line_warranty [OF warranty_line_class example_fields(1,4,5,6)]
      check_and_upload_unseen [OF k]
    by (simp add: example_dates)
  have b: "process_line self ono (JStr ''ABC123'') example_asset example_product
             service_line w' = Inr w'" for w'
    by (rule process_line_service [OF service_line_class example_fields(1,7)])
  show ?thesis by (simp add: a b)
qed

lemma example_item_run:
  assumes "resolve_order_no self example_asset w = (Inr ono, w1)"
    and "purchases w1 ''ABC123I-12023-01-02'' = None"
  shows "process_item self result example_item w =
         (None, upload_data self
            (line_data ono (JStr ''ABC123'') ''2020-01-02'' (JStr ''I-1'')
               ''Warranty'' warranty_line ''2020-01-02'' ''2023-01-02'') w1)"
  using assms(1) example_lines [OF assms(2)]
  by (simp add: process_item_def example_item_sections example_fields
      del: getitem.simps process_lines.simps)

lemma example_item_vendor:
  assumes "order_no self = ''vendor''" and "purchases w ''ABC123I-12023-01-02'' = None"
  shows "process_item self result example_item w =
         (None, upload_data self
            (line_data (JStr ''777'') (JStr ''ABC123'') ''2020-01-02'' (JStr ''I-1'')
               ''Warranty'' warranty_line ''2020-01-02'' ''2023-01-02'') w)"
proof -
  have "resolve_order_no self example_asset w = (Inr (JStr ''777''), w)"
    using assms(1) by (simp add: resolve_order_no_def example_fields del: getitem.simps)
  from example_item_run [OF this assms(2)] show ?thesis .
qed

lemma example_payload_run:
  assumes "order_no self = ''vendor''" and "purchases w ''ABC123I-12023-01-02'' = None"
  shows "process_result self example_payload w =
         (None, upload_data self
            (line_data (JStr ''777'') (JStr ''ABC123'') ''2020-01-02'' (JStr ''I-1'')
               ''Warranty'' warranty_line ''2020-01-02'' ''2023-01-02'') w)"
proof -
  have "process_items self example_payload [example_item] w =
         (None, upload_data self
            (line_data (JStr ''777'') (JStr ''ABC123'') ''2020-01-02'' (JStr ''I-1'')
               ''Warranty'' warranty_line ''2020-01-02'' ''2023-01-02'') w)"
    by (simp add: example_item_vendor [OF assms])
  then show ?thesis
    by (simp add: process_result_def example_payload_def del: process_items.simps)
qed

lemma example_upload_count:
  "length (uploads (snd (process_result example_self example_payload example_world))) = 1"
proof -
  have "order_no example_self = ''vendor''" by (simp add: example_self_def)
  moreover have "purchases example_world ''ABC123I-12023-01-02'' = None"
    by (simp add: example_world_def)
  ultimately show ?thesis
    by (simp add: example_payload_run upload_data_def example_world_def)
qed

lemma upload_data_identity_sink:
  "d42_rest self = (\<lambda>data seen. seen) \<Longrightarrow> purchases (upload_data self u w) = purchases w"
  by (simp add: upload_data_def)

lemma process_line_fresh:
  assumes "line_class product sub = Inr ''Warranty''"
    and "getitem asset ''ShipDate'' = Inr (JStr ship)"
    and "getitem sub ''ItemNumber'' = Inr (JStr cid)"
    and "getitem sub ''StartDate'' = Inr (JStr start)"
    and "getitem sub ''EndDate'' = Inr (JStr end')"
    and "purchases w = Map.empty"
  shows "process_line self ono (JStr serial) asset product sub w =
           Inr (upload_data self
             (line_data ono (JStr serial) (date_portion ship) (JStr cid) ''Warranty'' sub
                (date_portion start) (date_portion end')) w)"
proof -
  have "purchases w (serial @ cid @ date_portion end') = None"
    using assms(6) by simp
  from process_line_warranty [OF assms(1-5)] check_and_upload_unseen [OF this]
  show ?thesis by simp
qed

lemma second_fields:
  "getitem second_asset ''ShipDate'' = Inr (JStr [])"
  "getitem second_asset ''ServiceTag'' = Inr (JStr ''XYZ789'')"
  "getitem second_asset ''OrderNumber'' = Inr (JStr ''888'')"
  "getitem undescribed_line ''ItemNumber'' = Inr (JStr ''I-1'')"
  "getitem undescribed_line ''StartDate'' = Inr (JStr ''2020-01-02T00:00:00'')"
  "getitem undescribed_line ''EndDate'' = Inr (JStr ''2023-01-02T23:59:59'')"
  "getitem undescribed_line ''ServiceLevelDescription'' = Inr JNull"
  "getitem list_line ''ItemNumber'' = Inr (JStr ''I-3'')"
  "getitem list_line ''StartDate'' = Inr (JStr ''2021-05-06T00:00:00'')"
  "getitem list_line ''EndDate'' = Inr (JStr ''2024-05-06T23:59:59'')"
  "getitem list_line ''ServiceLevelDescription'' = Inr (JList [JInt 1, JInt 2])"
  by (simp_all add: second_asset_def undescribed_line_def list_line_def)

lemma list_line_class: "line_class example_product list_line = Inr ''Warranty''"
  by (simp add: example_product_def list_line_def line_class_def py_bind_def contract_type_def)

lemma second_item_sections:
  "sections second_item = Inr (JList [undescribed_line, list_line], second_asset, example_product)"
  by (simp add: second_item_def sections_def py_bind_def)

lemma more_dates:
  "date_portion [] = []"
  "date_portion ''2021-05-06T00:00:00'' = ''2021-05-06''"
  "date_portion ''2024-05-06T23:59:59'' = ''2024-05-06''"
  by (simp_all add: date_portion_def)

lemma first_lines:
  assumes "purchases w = Map.empty"
  shows "process_lines self ono (JStr ''ABC123'') example_asset example_product
           [warranty_line, service_line] w = (None, upload_data self (first_record ono) w)"
  using example_lines [of w self ono] assms by (simp add: first_record_def)

lemma second_lines:
  assumes "purchases w = Map.empty" and "d42_rest self = (\<lambda>data seen. seen)"
  shows "process_lines self ono (JStr ''XYZ789'') second_asset example_product
           [undescribed_line, list_line] w =
         (None, upload_data self (third_record ono) (upload_data self (second_record ono) w))"
proof -
  have a: "process_line self ono (JStr ''XYZ789'') second_asset example_product
             undescribed_line w = Inr (upload_data self (second_record ono) w)"
    using process_line_fresh [OF undescribed_line_class second_fields(1,4,5,6) assms(1)]
    by (simp add: second_record_def example_dates more_dates)
  have p: "purchases (upload_data self (second_record ono) w) = Map.empty"
    using assms by (simp add: upload_data_identity_sink)
  have b: "process_line self ono (JStr ''XYZ789'') second_asset example_product
             list_line (upload_data self (second_record ono) w) =
           Inr (upload_data self (third_record ono) (upload_data self (second_record ono) w))"
    using process_line_fresh [OF list_line_class second_fields(1,8,9,10) p]
    by (simp add: third_record_def more_dates)
  show ?thesis by (simp add: a b)
qed

lemma two_asset_run:
  assumes "d42_rest self = (\<lambda>data seen. seen)"
    and "purchases w = Map.empty"
    and "resolve_order_no self example_asset w = (Inr o1, w1)"
    and "resolve_order_no self second_asset (upload_data self (first_record o1) w1)
           = (Inr o2, w2)"
  shows "fst (process_result self two_asset_payload w) = None
         \<and> uploads (snd (process_result self two_asset_payload w))
           = uploads w @ [first_record o1, second_record o2, third_record o2]"
proof -
  note a = resolve_order_no_world [OF assms(3)]
  have p1: "purchases w1 = Map.empty" using a assms(2) by simp
  have i1: "process_item self two_asset_payload example_item w
             = (None, upload_data self (first_record o1) w1)"
    using assms(3) first_lines [OF p1]
    by (simp add: process_item_def example_item_sections example_fields
        del: getitem.simps process_lines.simps)
  note b = resolve_order_no_world [OF assms(4)]
  have p2: "purchases w2 = Map.empty"
    using b p1 assms(1) by (simp add: upload_data_identity_sink)
  have i2: "process_item self two_asset_payload second_item
              (upload_data self (first_record o1) w1)
             = (None, upload_data self (third_record o2)
                        (upload_data self (second_record o2) w2))"
    using assms(4) second_lines [OF p2 assms(1)]
    by (simp add: process_item_def second_item_sections second_fields
        del: getitem.simps process_lines.simps)
  have "process_items self two_asset_payload [example_item, second_item] w
          = (None, upload_data self (third_record o2)
                     (upload_data self (second_record o2) w2))"
    by (simp add: i1 i2)
  then have "process_result self two_asset_payload w
          = (None, upload_data self (third_record o2)
                     (upload_data self (second_record o2) w2))"
    by (simp add: process_result_def two_asset_payload_def del: process_items.simps)
  then show ?thesis
    using a b by (simp add: upload_data_def)
qed

lemma example_sink: "d42_rest example_self = (\<lambda>data seen. seen)"
  by (simp add: example_self_def)

lemma random_sink: "d42_rest random_self = (\<lambda>data seen. seen)"
  by (simp add: random_self_def example_self_def)

lemma common_self_fields:
  "order_no common_self = ''common''" "common common_self = Some ''012345678''"
  "d42_rest common_self = (\<lambda>data seen. seen)"
proof -
  have c: "ORDER_NO_TYPE common_shared = ''common''" by (simp add: common_shared_def)
  from Dell_init_common [OF c, of example_params example_world]
  show "order_no common_self = ''common''" "common common_self = Some ''012345678''"
    by (simp_all add: common_self_def example_order_no)
  show "d42_rest common_self = (\<lambda>data seen. seen)"
    by (simp add: common_self_def Dell_init_def Let_def common_shared_def example_params_def
        split: prod.splits)
qed

lemma example_world_empty: "purchases example_world = Map.empty" "uploads example_world = []"
  by (simp_all add: example_world_def)

lemma vendor_run:
  "uploads (snd (process_result example_self two_asset_payload example_world))
     = [first_record (JStr ''777''), second_record (JStr ''888''), third_record (JStr ''888'')]"
proof -
  have v: "order_no example_self = ''vendor''" by (simp add: example_self_def)
  have a: "resolve_order_no example_self example_asset w = (Inr (JStr ''777''), w)" for w
    using v by (simp add: resolve_order_no_def example_fields del: getitem.simps)
  have b: "resolve_order_no example_self second_asset w = (Inr (JStr ''888''), w)" for w
    using v by (simp add: resolve_order_no_def second_fields del: getitem.simps)
  from two_asset_run [OF example_sink example_world_empty(1) a b] show ?thesis
    by (simp add: example_world_empty)
qed

lemma common_run:
  "uploads (snd (process_result common_self two_asset_payload example_world))
     = [first_record (JStr ''012345678''), second_record (JStr ''012345678''),
        third_record (JStr ''012345678'')]"
proof -
  have a: "resolve_order_no common_self asset w = (Inr (JStr ''012345678''), w)" for asset w
    by (simp add: resolve_order_no_def common_self_fields)
  from two_asset_run [OF common_self_fields(3) example_world_empty(1) a a] show ?thesis
    by (simp add: example_world_empty)
qed

lemma random_run:
  "uploads (snd (process_result random_self two_asset_payload example_world))
     = [first_record (JStr ''012345678''), second_record (JStr ''901234567''),
        third_record (JStr ''901234567'')]"
proof -
  have o: "order_no random_self = ''random''" by (simp add: random_self_def)
  have a: "resolve_order_no random_self example_asset example_world
             = (Inr (JStr ''012345678''), example_world\<lparr>drawn := 9\<rparr>)"
    using o
    by (simp add: resolve_order_no_def generate_random_order_no_eq example_world_def
        upt_conv_Cons del: upt_Suc)
  have b: "resolve_order_no random_self second_asset
             (upload_data random_self (first_record (JStr ''012345678''))
                (example_world\<lparr>drawn := 9\<rparr>))
           = (Inr (JStr ''901234567''),
              (upload_data random_self (first_record (JStr ''012345678''))
                (example_world\<lparr>drawn := 9\<rparr>))\<lparr>drawn := 18\<rparr>)"
    using o
    by (simp add: resolve_order_no_def generate_random_order_no_eq example_world_def
        upload_data_def upt_conv_Cons del: upt_Suc)
  from two_asset_run [OF random_sink example_world_empty(1) a b] show ?thesis
    by (simp add: example_world_empty)
qed

lemma record_order_no:
  "getitem (JDict (first_record ono)) ''order_no'' = Inr ono"
  "getitem (JDict (second_record ono)) ''order_no'' = Inr ono"
  "getitem (JDict (third_record ono)) ''order_no'' = Inr ono"
  by (simp_all add: first_record_def second_record_def third_record_def getitem_line_data
      del: getitem.simps)

lemma record_serial:
  "getitem (JDict (first_record ono)) ''line_device_serial_nos'' = Inr (JStr ''ABC123'')"
  "getitem (JDict (second_record ono)) ''line_device_serial_nos'' = Inr (JStr ''XYZ789'')"
  "getitem (JDict (third_record ono)) ''line_device_serial_nos'' = Inr (JStr ''XYZ789'')"
  by (simp_all add: first_record_def second_record_def third_record_def getitem_line_data
      del: getitem.simps)

lemma record_contract_id:
  "getitem (JDict (first_record ono)) ''line_contract_id'' = Inr (JStr ''I-1'')"
  "getitem (JDict (second_record ono)) ''line_contract_id'' = Inr (JStr ''I-1'')"
  "getitem (JDict (third_record ono)) ''line_contract_id'' = Inr (JStr ''I-3'')"
  by (simp_all add: first_record_def second_record_def third_record_def getitem_line_data
      del: getitem.simps)

lemma record_service_type:
  "getitem (JDict (first_record ono)) ''line_service_type''
     = Inr (JStr ''Next Business Day Onsite Service'')"
  "getitem (JDict (second_record ono)) ''line_service_type'' = Inl KeyError"
  "getitem (JDict (third_record ono)) ''line_service_type'' = Inr (JList [JInt 1, JInt 2])"
  unfolding first_record_def second_record_def third_record_def getitem_service_type
  by (simp_all add: example_fields second_fields warranty_line_def del: getitem.simps(2))




subsection \<open>The claims\<close>

text \<open>
  Claim C1. For a line whose product id is the string \<open>p\<close>, whatever value \<open>g\<close> its
  service-level group is, the computed contract type is "Warranty" exactly when \<open>g\<close> is the
  integer -1, 5 or 8, or \<open>g\<close> is 11 and \<open>p\<close> has "compellent" as a substring; every other such
  line is "Service".
\<close>

theorem contract_type_classification:
  "contract_type g (JStr p) =
     Inr (if g = JInt (- 1) \<or> g = JInt 5 \<or> g = JInt 8
             \<or> (g = JInt 11 \<and> (\<exists>ps ss. p = ps @ ''compellent'' @ ss))
          then ''Warranty'' else ''Service'')"
  by (cases g) (simp_all add: contract_type_def py_and_def str_contains_iff)

theorem contract_type_classification_witness:
  "contract_type (JInt 11) (JStr ''xcompellent-sc'') = Inr ''Warranty''
   \<and> contract_type (JInt 11) (JStr ''poweredge'') = Inr ''Service''
   \<and> contract_type (JInt 8) (JStr ''compellent'') = Inr ''Warranty''
   \<and> contract_type (JInt 3) (JStr ''compellent'') = Inr ''Service''"
proof -
  have a: "\<exists>ps ss. ''xcompellent-sc'' = ps @ ''compellent'' @ ss"
    by (rule exI [of _ "''x''"], rule exI [of _ "''-sc''"]) simp
  have b: "\<not> (\<exists>ps ss. ''poweredge'' = ps @ ''compellent'' @ ss)"
    by (simp add: str_contains_iff [symmetric])
  show ?thesis
    using a b contract_type_classification [of "JInt 11" "''xcompellent-sc''"]
      contract_type_classification [of "JInt 11" "''poweredge''"]
      contract_type_classification [of "JInt 8" "''compellent''"]
      contract_type_classification [of "JInt 3" "''compellent''"]
    by simp
qed

text \<open>
  Claim C2. Whatever the payload and the seen-set, the records uploaded by one call of
  \<open>process_result\<close> can be matched, in order, with distinct entitlement lines of the payload
  (so there is at most one upload per line), each of them a line classified "Warranty" whose
  contract id and serial the record carries. A line classified "Service" changes nothing:
  no upload, no output, the world is as before.
\<close>

theorem uploads_only_for_warranty_lines:
  "(\<exists>new ls. uploads (snd (process_result self result w)) = uploads w @ new
       \<and> subseq ls (entitlement_lines result) \<and> list_all2 uploaded_for new ls
       \<and> length new \<le> length (entitlement_lines result))
   \<and> (line_class product sub_item = Inr ''Service''
        \<longrightarrow> snd (process_lines self order_no' serial asset product [sub_item] w) = w)"
proof
  obtain err w' where r: "process_result self result w = (err, w')"
    by (cases "process_result self result w")
  from process_result_effect [OF r] obtain new ls where
    n: "uploads w' = uploads w @ new" "subseq ls (entitlement_lines result)"
       "list_all2 uploaded_for new ls"
    by blast
  from n(2,3) have "length new \<le> length (entitlement_lines result)"
    using list_all2_lengthD list_emb_length by fastforce
  with n r
  show "\<exists>new ls. uploads (snd (process_result self result w)) = uploads w @ new
       \<and> subseq ls (entitlement_lines result) \<and> list_all2 uploaded_for new ls
       \<and> length new \<le> length (entitlement_lines result)"
    by auto
next
  show "line_class product sub_item = Inr ''Service''
        \<longrightarrow> snd (process_lines self order_no' serial asset product [sub_item] w) = w"
    by (auto simp: line_class_def process_line_def py_bind_def split: sum.splits)
qed

theorem uploads_only_for_warranty_lines_witness:
  "(\<exists>new ls. uploads (snd (process_result example_self example_payload example_world))
         = uploads example_world @ new
       \<and> subseq ls (entitlement_lines example_payload) \<and> list_all2 uploaded_for new ls
       \<and> length new \<le> length (entitlement_lines example_payload))
   \<and> line_class example_product service_line = Inr ''Service''
   \<and> snd (process_lines example_self (JStr ''777'') (JStr ''ABC123'') example_asset
            example_product [service_line] example_world) = example_world
   \<and> length (entitlement_lines example_payload) = 2
   \<and> length (uploads (snd (process_result example_self example_payload example_world))) = 1"
proof -
  have s: "line_class example_product service_line = Inr ''Service''"
    by (rule service_line_class)
  have l: "length (entitlement_lines example_payload) = 2"
    by (simp add: example_defs entitlement_lines_def lines_of_item_def sections_def py_bind_def)
  show ?thesis
    using s l example_upload_count uploads_only_for_warranty_lines [of example_self example_payload example_world
        example_product service_line "JStr ''777''" "JStr ''ABC123''" example_asset]
    by blast
qed



text \<open>
  Claim C5, at the input where it fails. The first request is answered 401 and \<open>retry\<close> is
  true: the fetcher sleeps 30 seconds and sends a second request, which the server answers
  with status 200 and a body; yet the call returns \<open>None\<close>, not that body.
\<close>

theorem retried_response_is_dropped:
  "fst (run_warranty_check example_self ''ABC123'' True (quiet_net throttled_once)) = Inr JNull
   \<and> length (sent (snd (run_warranty_check example_self ''ABC123'' True
                        (quiet_net throttled_once)))) = 2
   \<and> slept (snd (run_warranty_check example_self ''ABC123'' True
                   (quiet_net throttled_once))) = 30
   \<and> throttled_once 1 (last (sent (snd (run_warranty_check example_self ''ABC123'' True
                   (quiet_net throttled_once)))))
       = Response 200 (Inr (JDict [(''AssetWarrantyResponse'', JList [])]))"
  by (simp add: example_self_def quiet_net_def throttled_once_def Let_def)

text \<open>
  Claim C6, at the input where it fails. The first asset entry has no entitlement section
  and \<open>debug\<close> is set: the lookup raises \<open>KeyError\<close>, which \<open>except IndexError\<close> does not
  catch; the call ends with that exception, nothing is printed, and the well-formed second
  entry is never processed.
\<close>

theorem missing_section_raises:
  "process_result example_self malformed_payload example_world = (Some KeyError, example_world)"
  by (simp add: example_defs process_result_def process_item_def sections_def py_bind_def)

text \<open>
  Claim C7. Whatever the payload and the world, the records uploaded by one call of
  \<open>process_result\<close> can be matched, in order, with distinct entitlement lines of the payload,
  so that each record carries the contract id of its line, the serial of the line's asset
  and the order number prescribed for the position of that asset entry. Under \<open>vendor\<close> that
  is the \<open>OrderNumber\<close> of the asset's header. Under \<open>common\<close> it is the value held by the
  object, the same for every asset and every call, which the constructor generated as 9
  decimal digits. Under any other strategy it is a string of 9 decimal digits, the same for
  all lines of the asset, made of 9 draws of the random source that no other entry uses.
\<close>

theorem order_number_resolution:
  "(\<exists>new ls. uploads (snd (process_result self result w)) = uploads w @ new
       \<and> subseq ls (indexed_lines result)
       \<and> list_all2 (\<lambda>u (i, asset, product, sub_item).
            getitem (JDict u) ''order_no'' = expected_order_no self w i asset
            \<and> uploaded_for u (asset, product, sub_item)) new ls)
   \<and> (order_no self = ''vendor''
        \<longrightarrow> expected_order_no self w i asset = getitem asset ''OrderNumber'')
   \<and> (order_no self = ''common''
        \<longrightarrow> expected_order_no self w i asset
            = Inr (case common self of None \<Rightarrow> JNull | Some s \<Rightarrow> JStr s))
   \<and> (ORDER_NO_TYPE cfg = ''common''
        \<longrightarrow> order_no (fst (Dell_init ps cfg v)) = ''common''
            \<and> (\<exists>s. common (fst (Dell_init ps cfg v)) = Some s
                  \<and> s = fst (generate_random_order_no v)
                  \<and> length s = 9 \<and> set s \<subseteq> set ''0123456789''))
   \<and> (order_no self \<noteq> ''vendor'' \<and> order_no self \<noteq> ''common''
        \<longrightarrow> (\<exists>s. expected_order_no self w i asset = Inr (JStr s)
                  \<and> s = map (\<lambda>k. ''0123456789'' ! (entropy w (drawn w + 9 * i + k) mod 10))
                          [0..<9]
                  \<and> length s = 9 \<and> set s \<subseteq> set ''0123456789''))"
proof (intro conjI impI)
  from process_result_records [of self result w] obtain new ls where
    r: "uploads (snd (process_result self result w)) = uploads w @ new"
       "subseq ls (indexed_lines result)" "list_all2 (record_for self w) new ls"
    by blast
  have "list_all2 (\<lambda>u (i, asset, product, sub_item).
            getitem (JDict u) ''order_no'' = expected_order_no self w i asset
            \<and> uploaded_for u (asset, product, sub_item)) new ls"
    using r(3)
  proof (rule list_all2_mono)
    fix u l
    assume a: "record_for self w u l"
    obtain i asset product sub_item where l: "l = (i, asset, product, sub_item)"
      by (cases l) auto
    from a l have c: "line_class product sub_item = Inr ''Warranty''"
      and f: "\<And>k. getitem (JDict u) k
               = expected_field (expected_order_no self w i asset) asset sub_item k"
      by (auto simp: record_for_def)
    show "case l of (i, asset, product, sub_item) \<Rightarrow>
            getitem (JDict u) ''order_no'' = expected_order_no self w i asset
            \<and> uploaded_for u (asset, product, sub_item)"
      unfolding l uploaded_for_def prod.case f expected_field_at using c by simp
  qed
  with r(1,2)
  show "\<exists>new ls. uploads (snd (process_result self result w)) = uploads w @ new
       \<and> subseq ls (indexed_lines result)
       \<and> list_all2 (\<lambda>u (i, asset, product, sub_item).
            getitem (JDict u) ''order_no'' = expected_order_no self w i asset
            \<and> uploaded_for u (asset, product, sub_item)) new ls"
    by blast
next
  assume "order_no self = ''vendor''"
  then show "expected_order_no self w i asset = getitem asset ''OrderNumber''"
    by (simp add: expected_order_no_def)
next
  assume "order_no self = ''common''"
  then show "expected_order_no self w i asset
      = Inr (case common self of None \<Rightarrow> JNull | Some s \<Rightarrow> JStr s)"
    by (simp add: expected_order_no_def)
next
  assume c: "ORDER_NO_TYPE cfg = ''common''"
  from Dell_init_common [OF c, of ps v]
  show "order_no (fst (Dell_init ps cfg v)) = ''common''" by simp
next
  assume c: "ORDER_NO_TYPE cfg = ''common''"
  from Dell_init_common [OF c, of ps v] random_order_no_digits [of v]
  show "\<exists>s. common (fst (Dell_init ps cfg v)) = Some s
          \<and> s = fst (generate_random_order_no v)
          \<and> length s = 9 \<and> set s \<subseteq> set ''0123456789''"
    by simp
next
  assume o: "order_no self \<noteq> ''vendor'' \<and> order_no self \<noteq> ''common''"
  let ?s = "map (\<lambda>k. ''0123456789'' ! (entropy w (drawn w + 9 * i + k) mod 10)) [0..<9]"
  have "expected_order_no self w i asset = Inr (JStr ?s)"
    using o by (simp add: expected_order_no_def del: upt_Suc)
  with random_digits [of "\<lambda>k. entropy w (drawn w + 9 * i + k)"]
  show "\<exists>s. expected_order_no self w i asset = Inr (JStr s)
          \<and> s = ?s \<and> length s = 9 \<and> set s \<subseteq> set ''0123456789''"
    by blast
qed

theorem order_number_resolution_witness:
  "(\<exists>new ls. uploads (snd (process_result random_self two_asset_payload example_world))
         = uploads example_world @ new
       \<and> subseq ls (indexed_lines two_asset_payload)
       \<and> list_all2 (\<lambda>u (i, asset, product, sub_item).
            getitem (JDict u) ''order_no'' = expected_order_no random_self example_world i asset
            \<and> uploaded_for u (asset, product, sub_item)) new ls)
   \<and> order_no example_self = ''vendor''
   \<and> expected_order_no example_self example_world 1 second_asset = Inr (JStr ''888'')
   \<and> (\<exists>u1 u2 u3.
         uploads (snd (process_result example_self two_asset_payload example_world))
           = [u1, u2, u3]
         \<and> getitem (JDict u1) ''line_device_serial_nos'' = Inr (JStr ''ABC123'')
         \<and> getitem (JDict u2) ''line_device_serial_nos'' = Inr (JStr ''XYZ789'')
         \<and> getitem (JDict u3) ''line_device_serial_nos'' = Inr (JStr ''XYZ789'')
         \<and> getitem (JDict u1) ''order_no'' = Inr (JStr ''777'')
         \<and> getitem (JDict u2) ''order_no'' = Inr (JStr ''888'')
         \<and> getitem (JDict u3) ''order_no'' = Inr (JStr ''888''))
   \<and> ORDER_NO_TYPE common_shared = ''common''
   \<and> common common_self = Some ''012345678''
   \<and> (\<exists>u1 u2 u3.
         uploads (snd (process_result common_self two_asset_payload example_world))
           = [u1, u2, u3]
         \<and> getitem (JDict u1) ''order_no'' = Inr (JStr ''012345678'')
         \<and> getitem (JDict u2) ''order_no'' = Inr (JStr ''012345678'')
         \<and> getitem (JDict u3) ''order_no'' = Inr (JStr ''012345678''))
   \<and> order_no random_self \<noteq> ''vendor'' \<and> order_no random_self \<noteq> ''common''
   \<and> expected_order_no random_self example_world 1 second_asset = Inr (JStr ''901234567'')
   \<and> (\<exists>u1 u2 u3.
         uploads (snd (process_result random_self two_asset_payload example_world))
           = [u1, u2, u3]
         \<and> getitem (JDict u1) ''order_no'' = Inr (JStr ''012345678'')
         \<and> getitem (JDict u2) ''order_no'' = Inr (JStr ''901234567'')
         \<and> getitem (JDict u3) ''order_no'' = Inr (JStr ''901234567''))"
proof -
  note a = order_number_resolution [where self = example_self and result = two_asset_payload
      and w = example_world and i = 1 and asset = second_asset and cfg = common_shared
      and ps = example_params and v = example_world]
  note b = order_number_resolution [where self = random_self and result = two_asset_payload
      and w = example_world and i = 1 and asset = second_asset and cfg = common_shared
      and ps = example_params and v = example_world]
  have h1: "order_no example_self = ''vendor''"
    by (simp add: example_self_def)
  have h2: "ORDER_NO_TYPE common_shared = ''common''"
    by (simp add: common_shared_def)
  have h3: "order_no random_self \<noteq> ''vendor'' \<and> order_no random_self \<noteq> ''common''"
    by (simp add: random_self_def)
  from a h1 have c1: "expected_order_no example_self example_world 1 second_asset
      = Inr (JStr ''888'')"
    by (simp add: second_fields del: getitem.simps)
  from a h2 have c2: "common common_self = Some ''012345678''"
    by (simp add: common_self_def example_order_no)
  have e: "map (\<lambda>k. ''0123456789'' ! (entropy example_world (drawn example_world + 9 * 1 + k)
             mod 10)) [0..<9] = ''901234567''"
    by (simp add: example_world_def upt_conv_Cons del: upt_Suc)
  from b h3 have c3: "expected_order_no random_self example_world 1 second_asset
      = Inr (JStr ''901234567'')"
    unfolding e by blast
  from b have m: "\<exists>new ls.
      uploads (snd (process_result random_self two_asset_payload example_world))
         = uploads example_world @ new
       \<and> subseq ls (indexed_lines two_asset_payload)
       \<and> list_all2 (\<lambda>u (i, asset, product, sub_item).
            getitem (JDict u) ''order_no'' = expected_order_no random_self example_world i asset
            \<and> uploaded_for u (asset, product, sub_item)) new ls"
    by blast
  have r1: "\<exists>u1 u2 u3.
         uploads (snd (process_result example_self two_asset_payload example_world))
           = [u1, u2, u3]
         \<and> getitem (JDict u1) ''line_device_serial_nos'' = Inr (JStr ''ABC123'')
         \<and> getitem (JDict u2) ''line_device_serial_nos'' = Inr (JStr ''XYZ789'')
         \<and> getitem (JDict u3) ''line_device_serial_nos'' = Inr (JStr ''XYZ789'')
         \<and> getitem (JDict u1) ''order_no'' = Inr (JStr ''777'')
         \<and> getitem (JDict u2) ''order_no'' = Inr (JStr ''888'')
         \<and> getitem (JDict u3) ''order_no'' = Inr (JStr ''888'')"
    using vendor_run by (simp add: record_order_no record_serial del: getitem.simps)
  have r2: "\<exists>u1 u2 u3.
         uploads (snd (process_result common_self two_asset_payload example_world))
           = [u1, u2, u3]
         \<and> getitem (JDict u1) ''order_no'' = Inr (JStr ''012345678'')
         \<and> getitem (JDict u2) ''order_no'' = Inr (JStr ''012345678'')
         \<and> getitem (JDict u3) ''order_no'' = Inr (JStr ''012345678'')"
    using common_run by (simp add: record_order_no del: getitem.simps)
  have r3: "\<exists>u1 u2 u3.
         uploads (snd (process_result random_self two_asset_payload example_world))
           = [u1, u2, u3]
         \<and> getitem (JDict u1) ''order_no'' = Inr (JStr ''012345678'')
         \<and> getitem (JDict u2) ''order_no'' = Inr (JStr ''901234567'')
         \<and> getitem (JDict u3) ''order_no'' = Inr (JStr ''901234567'')"
    using random_run by (simp add: record_order_no del: getitem.simps)
  from m h1 c1 r1 h2 c2 r2 h3 c3 r3 show ?thesis by blast
qed

text \<open>
  Claim C8. The seen-set after \<open>process_result\<close> is the seen-set before it, changed only by
  what the upload sink did at each of the upload calls, in their order; with a sink that
  leaves the seen-set alone it is unchanged.
\<close>

theorem purchases_frame:
  "(\<exists>new. uploads (snd (process_result self result w)) = uploads w @ new
       \<and> purchases (snd (process_result self result w))
           = fold (d42_rest self) new (purchases w))
   \<and> ((\<forall>data seen. d42_rest self data seen = seen)
        \<longrightarrow> purchases (snd (process_result self result w)) = purchases w)"
proof -
  obtain err w' where r: "process_result self result w = (err, w')"
    by (cases "process_result self result w")
  from process_result_effect [OF r] obtain new where
    n: "uploads w' = uploads w @ new" "purchases w' = fold (d42_rest self) new (purchases w)"
    by blast
  have "fold (d42_rest self) new p = p" if "\<forall>data seen. d42_rest self data seen = seen" for p
    using that by (induction new) simp_all
  with n r show ?thesis by auto
qed

theorem purchases_frame_witness:
  "(\<forall>data seen. d42_rest example_self data seen = seen)
   \<and> purchases (snd (process_result example_self example_payload example_world))
       = purchases example_world"
proof -
  have h: "\<forall>data seen. d42_rest example_self data seen = seen"
    by (simp add: example_self_def)
  with purchases_frame [of example_self example_payload example_world] show ?thesis
    by blast
qed

text \<open>
  Claim C9 as it is worded fails: a description that is not text but a list is not left out
  of the record. The second entry of this payload has a line whose description is the list
  \<open>[1, 2]\<close>; its record is uploaded with that list as \<open>line_service_type\<close>.
\<close>

theorem list_description_stored:
  "getitem list_line ''ServiceLevelDescription'' = Inr (JList [JInt 1, JInt 2])
   \<and> (\<exists>u1 u2 u3.
         uploads (snd (process_result example_self two_asset_payload example_world))
           = [u1, u2, u3]
         \<and> getitem (JDict u3) ''line_contract_id'' = getitem list_line ''ItemNumber''
         \<and> getitem (JDict u3) ''line_service_type'' = Inr (JList [JInt 1, JInt 2]))"
  using vendor_run record_contract_id(3) [of "JStr ''888''"]
    record_service_type(3) [of "JStr ''888''"] second_fields(8,11)
  by (simp del: getitem.simps)

text \<open>
  Claim C9, amended. Whatever the payload and the world, every record uploaded by
  \<open>process_result\<close> belongs to a warranty line of the payload, and its field
  \<open>line_service_type\<close> is the description of that line cut to its first 32 characters when
  the description is a string (the description itself when it has at most 32), the
  description cut to its first 32 elements when it is a list, and absent when the line has
  no description or one that cannot be sliced (\<open>null\<close>, a number, a boolean, an object).
  Every other field of the record is the prescribed one, which does not depend on the
  description: two lines with the same contract id and dates have the same prescribed
  fields.
\<close>

theorem service_type_stored:
  "(\<exists>new ls. uploads (snd (process_result self result w)) = uploads w @ new
       \<and> subseq ls (indexed_lines result)
       \<and> list_all2 (\<lambda>u (i, asset, product, sub_item).
            line_class product sub_item = Inr ''Warranty''
            \<and> getitem (JDict u) ''line_service_type''
                = (case getitem sub_item ''ServiceLevelDescription'' of
                     Inr (JStr d) \<Rightarrow> Inr (JStr (take 32 d))
                   | Inr (JList xs) \<Rightarrow> Inr (JList (take 32 xs))
                   | _ \<Rightarrow> Inl KeyError)
            \<and> (\<forall>d. getitem sub_item ''ServiceLevelDescription'' = Inr (JStr d)
                    \<and> length d \<le> 32
                  \<longrightarrow> getitem (JDict u) ''line_service_type'' = Inr (JStr d))
            \<and> (\<forall>k. k \<noteq> ''line_service_type''
                  \<longrightarrow> getitem (JDict u) k
                      = expected_field (expected_order_no self w i asset) asset sub_item k))
          new ls)
   \<and> (getitem other ''ItemNumber'' = getitem sub ''ItemNumber''
        \<and> getitem other ''StartDate'' = getitem sub ''StartDate''
        \<and> getitem other ''EndDate'' = getitem sub ''EndDate''
        \<longrightarrow> (\<forall>k. k \<noteq> ''line_service_type''
               \<longrightarrow> expected_field order asset other k = expected_field order asset sub k))"
proof (intro conjI impI)
  from process_result_records [of self result w] obtain new ls where
    r: "uploads (snd (process_result self result w)) = uploads w @ new"
       "subseq ls (indexed_lines result)" "list_all2 (record_for self w) new ls"
    by blast
  have "list_all2 (\<lambda>u (i, asset, product, sub_item).
            line_class product sub_item = Inr ''Warranty''
            \<and> getitem (JDict u) ''line_service_type''
                = (case getitem sub_item ''ServiceLevelDescription'' of
                     Inr (JStr d) \<Rightarrow> Inr (JStr (take 32 d))
                   | Inr (JList xs) \<Rightarrow> Inr (JList (take 32 xs))
                   | _ \<Rightarrow> Inl KeyError)
            \<and> (\<forall>d. getitem sub_item ''ServiceLevelDescription'' = Inr (JStr d)
                    \<and> length d \<le> 32
                  \<longrightarrow> getitem (JDict u) ''line_service_type'' = Inr (JStr d))
            \<and> (\<forall>k. k \<noteq> ''line_service_type''
                  \<longrightarrow> getitem (JDict u) k
                      = expected_field (expected_order_no self w i asset) asset sub_item k))
          new ls"
    using r(3)
  proof (rule list_all2_mono)
    fix u l
    assume a: "record_for self w u l"
    obtain i asset product sub_item where l: "l = (i, asset, product, sub_item)"
      by (cases l) auto
    from a l have c: "line_class product sub_item = Inr ''Warranty''"
      and f: "\<And>k. getitem (JDict u) k
               = expected_field (expected_order_no self w i asset) asset sub_item k"
      by (auto simp: record_for_def)
    have s: "getitem (JDict u) ''line_service_type''
          = (case getitem sub_item ''ServiceLevelDescription'' of
               Inr (JStr d) \<Rightarrow> Inr (JStr (take 32 d))
             | Inr (JList xs) \<Rightarrow> Inr (JList (take 32 xs))
             | _ \<Rightarrow> Inl KeyError)"
      unfolding f expected_field_at service_type_of_def ..
    have p: "\<forall>d. getitem sub_item ''ServiceLevelDescription'' = Inr (JStr d) \<and> length d \<le> 32
          \<longrightarrow> getitem (JDict u) ''line_service_type'' = Inr (JStr d)"
      unfolding s by simp
    show "case l of (i, asset, product, sub_item) \<Rightarrow>
            line_class product sub_item = Inr ''Warranty''
            \<and> getitem (JDict u) ''line_service_type''
                = (case getitem sub_item ''ServiceLevelDescription'' of
                     Inr (JStr d) \<Rightarrow> Inr (JStr (take 32 d))
                   | Inr (JList xs) \<Rightarrow> Inr (JList (take 32 xs))
                   | _ \<Rightarrow> Inl KeyError)
            \<and> (\<forall>d. getitem sub_item ''ServiceLevelDescription'' = Inr (JStr d)
                    \<and> length d \<le> 32
                  \<longrightarrow> getitem (JDict u) ''line_service_type'' = Inr (JStr d))
            \<and> (\<forall>k. k \<noteq> ''line_service_type''
                  \<longrightarrow> getitem (JDict u) k
                      = expected_field (expected_order_no self w i asset) asset sub_item k)"
      unfolding l prod.case using c s p f by blast
  qed
  with r(1,2)
  show "\<exists>new ls. uploads (snd (process_result self result w)) = uploads w @ new
       \<and> subseq ls (indexed_lines result)
       \<and> list_all2 (\<lambda>u (i, asset, product, sub_item).
            line_class product sub_item = Inr ''Warranty''
            \<and> getitem (JDict u) ''line_service_type''
                = (case getitem sub_item ''ServiceLevelDescription'' of
                     Inr (JStr d) \<Rightarrow> Inr (JStr (take 32 d))
                   | Inr (JList xs) \<Rightarrow> Inr (JList (take 32 xs))
                   | _ \<Rightarrow> Inl KeyError)
            \<and> (\<forall>d. getitem sub_item ''ServiceLevelDescription'' = Inr (JStr d)
                    \<and> length d \<le> 32
                  \<longrightarrow> getitem (JDict u) ''line_service_type'' = Inr (JStr d))
            \<and> (\<forall>k. k \<noteq> ''line_service_type''
                  \<longrightarrow> getitem (JDict u) k
                      = expected_field (expected_order_no self w i asset) asset sub_item k))
          new ls"
    by blast
next
  assume "getitem other ''ItemNumber'' = getitem sub ''ItemNumber''
        \<and> getitem other ''StartDate'' = getitem sub ''StartDate''
        \<and> getitem other ''EndDate'' = getitem sub ''EndDate''"
  then show "\<forall>k. k \<noteq> ''line_service_type''
      \<longrightarrow> expected_field order asset other k = expected_field order asset sub k"
    using expected_field_other by blast
qed

theorem service_type_stored_witness:
  "(\<exists>new ls. uploads (snd (process_result example_self two_asset_payload example_world))
         = uploads example_world @ new
       \<and> subseq ls (indexed_lines two_asset_payload)
       \<and> list_all2 (\<lambda>u (i, asset, product, sub_item).
            line_class product sub_item = Inr ''Warranty''
            \<and> getitem (JDict u) ''line_service_type''
                = (case getitem sub_item ''ServiceLevelDescription'' of
                     Inr (JStr d) \<Rightarrow> Inr (JStr (take 32 d))
                   | Inr (JList xs) \<Rightarrow> Inr (JList (take 32 xs))
                   | _ \<Rightarrow> Inl KeyError)
            \<and> (\<forall>d. getitem sub_item ''ServiceLevelDescription'' = Inr (JStr d)
                    \<and> length d \<le> 32
                  \<longrightarrow> getitem (JDict u) ''line_service_type'' = Inr (JStr d))
            \<and> (\<forall>k. k \<noteq> ''line_service_type''
                  \<longrightarrow> getitem (JDict u) k
                      = expected_field (expected_order_no example_self example_world i asset)
                          asset sub_item k))
          new ls)
   \<and> getitem undescribed_line ''ItemNumber'' = getitem warranty_line ''ItemNumber''
   \<and> getitem undescribed_line ''StartDate'' = getitem warranty_line ''StartDate''
   \<and> getitem undescribed_line ''EndDate'' = getitem warranty_line ''EndDate''
   \<and> expected_field (Inr (JStr ''777'')) example_asset undescribed_line ''line_end_date''
       = expected_field (Inr (JStr ''777'')) example_asset warranty_line ''line_end_date''
   \<and> (\<exists>u1 u2 u3.
         uploads (snd (process_result example_self two_asset_payload example_world))
           = [u1, u2, u3]
         \<and> getitem (JDict u1) ''line_service_type''
             = Inr (JStr ''Next Business Day Onsite Service'')
         \<and> getitem (JDict u2) ''line_service_type'' = Inl KeyError
         \<and> getitem (JDict u3) ''line_service_type'' = Inr (JList [JInt 1, JInt 2]))"
proof -
  note t = service_type_stored [where self = example_self and result = two_asset_payload
      and w = example_world and other = undescribed_line and sub = warranty_line
      and order = "Inr (JStr ''777'')" and asset = example_asset]
  have h: "getitem undescribed_line ''ItemNumber'' = getitem warranty_line ''ItemNumber''
     \<and> getitem undescribed_line ''StartDate'' = getitem warranty_line ''StartDate''
     \<and> getitem undescribed_line ''EndDate'' = getitem warranty_line ''EndDate''"
    by (simp add: example_fields second_fields del: getitem.simps)
  with t have e: "expected_field (Inr (JStr ''777'')) example_asset undescribed_line
        ''line_end_date''
       = expected_field (Inr (JStr ''777'')) example_asset warranty_line ''line_end_date''"
    by simp
  have r: "\<exists>u1 u2 u3.
         uploads (snd (process_result example_self two_asset_payload example_world))
           = [u1, u2, u3]
         \<and> getitem (JDict u1) ''line_service_type''
             = Inr (JStr ''Next Business Day Onsite Service'')
         \<and> getitem (JDict u2) ''line_service_type'' = Inl KeyError
         \<and> getitem (JDict u3) ''line_service_type'' = Inr (JList [JInt 1, JInt 2])"
    using vendor_run record_service_type [of "JStr ''888''"]
      record_service_type(1) [of "JStr ''777''"]
    by (simp del: getitem.simps)
  from t h e r show ?thesis by blast
qed

text \<open>
  Claim C10. A payload that is a dictionary without the key \<open>AssetWarrantyResponse\<close> makes
  \<open>process_result\<close> return normally with the world, and so the uploads and the seen-set,
  untouched.
\<close>

theorem missing_response_key:
  "map_of d ''AssetWarrantyResponse'' = None
   \<Longrightarrow> process_result self (JDict d) w = (None, w)"
  by (simp add: process_result_def map_of_eq_None_iff)

theorem missing_response_key_witness:
  "map_of [(''InvalidFormatAssets'', JDict [(''BadAssets'', JStr ''XYZ'')])]
       ''AssetWarrantyResponse'' = None
   \<and> process_result example_self
        (JDict [(''InvalidFormatAssets'', JDict [(''BadAssets'', JStr ''XYZ'')])]) example_world
       = (None, example_world)"
proof -
  have h: "map_of [(''InvalidFormatAssets'', JDict [(''BadAssets'', JStr ''XYZ'')])]
       ''AssetWarrantyResponse'' = None"
    by simp
  from h missing_response_key [OF h, of example_self example_world] show ?thesis
    by blast
qed

end
